theory Spec2Isabelle
  imports Main
begin

section \<open>JavaScript values used by the handlers\<close>

text \<open>
  Amounts are integers in minor currency units; the source computes with JavaScript numbers,
  which are exact on the integers used for money, so they are modelled as \<open>int\<close>.
  An optional property (\<open>amount?: number\<close>, \<open>data.data?.id\<close>) is an \<open>option\<close>,
  \<open>None\<close> standing for \<open>undefined\<close>. Timestamp columns (\<open>createdAt\<close>,
  \<open>processedAt\<close>, \<open>capturedAt\<close>, \<open>receivedAt\<close>) hold wall-clock values and are left out.
\<close>

definition truthy_num :: "int option \<Rightarrow> bool" where
  "truthy_num v = (case v of None \<Rightarrow> False | Some n \<Rightarrow> n \<noteq> 0)"

definition truthy_str :: "string option \<Rightarrow> bool" where
  "truthy_str v = (case v of None \<Rightarrow> False | Some s \<Rightarrow> s \<noteq> [])"

text \<open>\<open>a || b\<close> on optional strings: the left operand when it is truthy, else the right one.\<close>

definition or_str :: "string option \<Rightarrow> string option \<Rightarrow> string option" where
  "or_str a b = (if truthy_str a then a else b)"

text \<open>Decimal rendering of an integer, as a template literal \<open>${n}\<close> prints it.\<close>

fun show_nat :: "nat \<Rightarrow> string" where
  "show_nat n =
     (if n < 10 then [''0123456789'' ! n]
      else show_nat (n div 10) @ [''0123456789'' ! (n mod 10)])"

definition show_int :: "int \<Rightarrow> string" where
  "show_int i = (if i < 0 then CHR ''-'' # show_nat (nat (- i)) else show_nat (nat i))"

section \<open>Error classes (payments/errors.ts)\<close>

record PaymentError =
  err_name :: string
  err_message :: string
  err_code :: string
  err_statusCode :: nat
  err_retryable :: bool
  err_terminalId :: "string option"

text \<open>
  An error of the HTTP client (Axios): its message, its \<open>code\<close> (such as \<open>ECONNREFUSED\<close>)
  when the failure is below HTTP, and the response when the server answered with an error
  status. Of an error response the adapters read the status and the fields
  \<open>data.error.code\<close>, \<open>data.code\<close>, \<open>data.error.message\<close> and \<open>data.message\<close>.
\<close>

record AxiosResponse =
  resp_status :: nat
  data_error_code :: "string option"
  data_code :: "string option"
  data_error_message :: "string option"
  data_message :: "string option"

record AxiosError =
  ax_message :: string
  ax_code :: "string option"
  ax_response :: "AxiosResponse option"

text \<open>
  A thrown value: an instance of \<open>PaymentError\<close> (or of a subclass), an Axios error,
  another \<open>Error\<close> with its message, or a value that is not an \<open>Error\<close> at all.
\<close>

datatype JsError = PaymentErr PaymentError | AxiosErr AxiosError | PlainErr string | NonError

definition mkPaymentError :: "string \<Rightarrow> string \<Rightarrow> nat \<Rightarrow> bool \<Rightarrow> PaymentError" where
  "mkPaymentError message code statusCode retryable =
     \<lparr>err_name = ''PaymentError'', err_message = message, err_code = code,
      err_statusCode = statusCode, err_retryable = retryable, err_terminalId = None\<rparr>"

definition NetworkError :: "string \<Rightarrow> bool \<Rightarrow> PaymentError" where
  "NetworkError message retryable =
     (mkPaymentError message ''NETWORK_ERROR'' 503 retryable)\<lparr>err_name := ''NetworkError''\<rparr>"

definition InvalidRequestError :: "string \<Rightarrow> PaymentError" where
  "InvalidRequestError message =
     (mkPaymentError message ''INVALID_REQUEST'' 400 False)\<lparr>err_name := ''InvalidRequestError''\<rparr>"

definition AuthenticationError :: "string \<Rightarrow> PaymentError" where
  "AuthenticationError message =
     (mkPaymentError message ''AUTHENTICATION_ERROR'' 401 False)
       \<lparr>err_name := ''AuthenticationError''\<rparr>"

definition CardError :: "string \<Rightarrow> PaymentError" where
  "CardError message =
     (mkPaymentError message ''CARD_ERROR'' 402 False)\<lparr>err_name := ''CardError''\<rparr>"

definition RateLimitError :: "string \<Rightarrow> PaymentError" where
  "RateLimitError message =
     (mkPaymentError message ''RATE_LIMIT_ERROR'' 429 True)\<lparr>err_name := ''RateLimitError''\<rparr>"

definition TerminalError :: "string \<Rightarrow> string option \<Rightarrow> bool \<Rightarrow> PaymentError" where
  "TerminalError message terminalId retryable =
     (mkPaymentError message ''TERMINAL_ERROR'' 500 retryable)
       \<lparr>err_name := ''TerminalError'', err_terminalId := terminalId\<rparr>"

definition TerminalOfflineError :: "string \<Rightarrow> PaymentError" where
  "TerminalOfflineError terminalId =
     (TerminalError (''Terminal '' @ terminalId @ '' is offline'') (Some terminalId) True)
       \<lparr>err_name := ''TerminalOfflineError'', err_code := ''TERMINAL_OFFLINE''\<rparr>"

definition TerminalTimeoutError :: "string \<Rightarrow> PaymentError" where
  "TerminalTimeoutError terminalId =
     (TerminalError (''Terminal '' @ terminalId @ '' timed out'') (Some terminalId) True)
       \<lparr>err_name := ''TerminalTimeoutError'', err_code := ''TERMINAL_TIMEOUT''\<rparr>"

text \<open>\<open>error.message.includes(s)\<close>: \<open>s\<close> occurs as a contiguous substring.\<close>

fun is_prefix :: "string \<Rightarrow> string \<Rightarrow> bool" where
  "is_prefix [] ys = True"
| "is_prefix (x # xs) [] = False"
| "is_prefix (x # xs) (y # ys) = (x = y \<and> is_prefix xs ys)"

fun includes_str :: "string \<Rightarrow> string \<Rightarrow> bool" where
  "includes_str [] s = (s = [])"
| "includes_str (c # cs) s = (is_prefix s (c # cs) \<or> includes_str cs s)"

definition js_message :: "JsError \<Rightarrow> string option" where
  "js_message e =
     (case e of
        PaymentErr pe \<Rightarrow> Some (err_message pe)
      | AxiosErr ae \<Rightarrow> Some (ax_message ae)
      | PlainErr m \<Rightarrow> Some m
      | NonError \<Rightarrow> None)"

text \<open>
  \<open>js_message\<close> is \<open>error.message\<close> of an \<open>Error\<close>, and \<open>error_text\<close> is
  \<open>error instanceof Error ? error.message : 'Unknown error'\<close>. \<open>isRetryableError\<close>
  takes an \<open>Error\<close>; for one that is not a \<open>PaymentError\<close> it searches the message.
\<close>

definition error_text :: "JsError \<Rightarrow> string" where
  "error_text e = (case js_message e of Some m \<Rightarrow> m | None \<Rightarrow> ''Unknown error'')"

definition network_message :: "string \<Rightarrow> bool" where
  "network_message m =
     (includes_str m ''ECONNREFUSED'' \<or> includes_str m ''ETIMEDOUT'' \<or>
      includes_str m ''ENOTFOUND'')"

definition isRetryableError :: "JsError \<Rightarrow> bool" where
  "isRetryableError e =
     (case e of
        PaymentErr pe \<Rightarrow> err_retryable pe
      | AxiosErr ae \<Rightarrow> network_message (ax_message ae)
      | PlainErr m \<Rightarrow> network_message m
      | NonError \<Rightarrow> False)"

definition toPaymentError :: "JsError \<Rightarrow> PaymentError" where
  "toPaymentError e =
     (case e of
        PaymentErr pe \<Rightarrow> pe
      | AxiosErr ae \<Rightarrow> mkPaymentError (ax_message ae) ''UNKNOWN_ERROR'' 500 False
      | PlainErr m \<Rightarrow> mkPaymentError m ''UNKNOWN_ERROR'' 500 False
      | NonError \<Rightarrow> mkPaymentError ''An unknown error occurred'' ''UNKNOWN_ERROR'' 500 False)"

section \<open>API helpers (lib/api-utils.ts)\<close>

record ApiError =
  api_code :: string
  api_message :: string

datatype 'a HttpResponse = ErrorResponse nat ApiError | SuccessResponse nat 'a

fun http_status :: "'a HttpResponse \<Rightarrow> nat" where
  "http_status (ErrorResponse s e) = s"
| "http_status (SuccessResponse s b) = s"

definition errorResponse :: "JsError \<Rightarrow> nat \<Rightarrow> 'a HttpResponse" where
  "errorResponse error status =
     (case error of
        PaymentErr pe \<Rightarrow>
          ErrorResponse (err_statusCode pe) \<lparr>api_code = err_code pe, api_message = err_message pe\<rparr>
      | AxiosErr ae \<Rightarrow>
          ErrorResponse status \<lparr>api_code = ''INTERNAL_ERROR'', api_message = ax_message ae\<rparr>
      | PlainErr m \<Rightarrow> ErrorResponse status \<lparr>api_code = ''INTERNAL_ERROR'', api_message = m\<rparr>
      | NonError \<Rightarrow>
          ErrorResponse status
            \<lparr>api_code = ''UNKNOWN_ERROR'', api_message = ''An unknown error occurred''\<rparr>)"

definition successResponse :: "'a \<Rightarrow> nat \<Rightarrow> 'a HttpResponse" where
  "successResponse data status = SuccessResponse status data"

text \<open>
  \<open>generateIdempotencyKey(prefix)\<close> returns the prefix, an underscore and \<open>nanoid(24)\<close>.
  The random string is an input of the model.
\<close>

definition generateIdempotencyKey :: "string \<Rightarrow> string \<Rightarrow> string" where
  "generateIdempotencyKey nanoid prefix = prefix @ ''_'' @ nanoid"

section \<open>Shift4 online adapter (payments/adapters/shift4-adapter.ts)\<close>

text \<open>
  The HTTP client is the environment: a call either resolves with the response body or
  rejects with an Axios error, which the response interceptor turns into a
  \<open>PaymentError\<close> by \<open>handleError\<close>.
\<close>

definition handleError :: "AxiosError \<Rightarrow> PaymentError" where
  "handleError error =
     (case ax_response error of
        None \<Rightarrow>
          NetworkError
            (if ax_message error \<noteq> [] then ax_message error
             else ''Network error connecting to Shift4'') True
      | Some response \<Rightarrow>
          (let status = resp_status response;
               errorCode = or_str (data_error_code response) (data_code response);
               errorMessage =
                 (case or_str (or_str (data_error_message response) (data_message response))
                         (Some ''Unknown Shift4 error'') of
                    Some m \<Rightarrow> m | None \<Rightarrow> ''Unknown Shift4 error'')
           in if status = 400 then InvalidRequestError errorMessage
              else if status = 401 then
                AuthenticationError ''Invalid Shift4 API credentials. Check your secret key.''
              else if status = 402 then CardError errorMessage
              else if status = 429 then RateLimitError ''Shift4 rate limit exceeded''
              else if status = 500 \<or> status = 502 \<or> status = 503 \<or> status = 504 then
                NetworkError ''Shift4 API is temporarily unavailable'' True
              else mkPaymentError errorMessage
                     (case or_str errorCode (Some ''SHIFT4_ERROR'') of
                        Some c \<Rightarrow> c | None \<Rightarrow> ''SHIFT4_ERROR'')
                     status False))"

datatype Shift4Status = St_succeeded | St_pending | St_failed

text \<open>\<open>createRefund\<close>: the payload carries the amount and the reason only when truthy.\<close>

record CreateRefundRequest =
  rq_chargeId :: "string option"
  rq_amount :: "int option"
  rq_reason :: "string option"
  rq_orderId :: string
  rq_paymentId :: string

record RefundPayload =
  pl_chargeId :: "string option"
  pl_amount :: "int option"
  pl_reason :: "string option"
  pl_orderId :: string
  pl_paymentId :: string

record RefundData =
  rd_id :: string
  rd_chargeId :: string
  rd_amount :: int
  rd_status :: string

record CreateRefundResponse =
  rr_refundId :: string
  rr_chargeId :: string
  rr_amount :: int
  rr_status :: Shift4Status

definition refund_payload :: "CreateRefundRequest \<Rightarrow> RefundPayload" where
  "refund_payload request =
     \<lparr>pl_chargeId = rq_chargeId request,
      pl_amount = (if truthy_num (rq_amount request) then rq_amount request else None),
      pl_reason = (if truthy_str (rq_reason request) then rq_reason request else None),
      pl_orderId = rq_orderId request,
      pl_paymentId = rq_paymentId request\<rparr>"

definition createRefund ::
  "(RefundPayload \<Rightarrow> AxiosError + RefundData) \<Rightarrow> CreateRefundRequest \<Rightarrow>
     JsError + CreateRefundResponse" where
  "createRefund post request =
     (case post (refund_payload request) of
        Inl e \<Rightarrow> Inl (PaymentErr (handleError e))
      | Inr d \<Rightarrow>
          Inr \<lparr>rr_refundId = rd_id d, rr_chargeId = rd_chargeId d, rr_amount = rd_amount d,
               rr_status = (if rd_status d = ''successful'' then St_succeeded else St_pending)\<rparr>)"

section \<open>The store\<close>

text \<open>
  The Prisma schema is not part of the sources read here. A table is the list of its rows
  in insertion order; a row has the columns the handlers read or write. An enumeration has
  the values the handlers use and a constructor for any other value of the schema.
\<close>

datatype PaymentStatus =
  P_CAPTURED | P_FAILED | P_PARTIALLY_REFUNDED | P_REFUNDED | P_OTHER string

datatype MethodType = CARD_ONLINE | SAVED_CARD | CARD_TERMINAL

datatype RefundStatus = R_PENDING | R_SUCCEEDED | R_FAILED

datatype OrderStatus =
  O_DRAFT | O_PENDING_PAYMENT | O_PAID | O_PARTIALLY_REFUNDED | O_REFUNDED | O_OTHER string

record Payment =
  p_id :: string
  p_orderId :: string
  p_customerId :: "string option"
  p_shift4ChargeId :: "string option"
  p_amount :: int
  p_currency :: string
  p_status :: PaymentStatus
  p_methodType :: MethodType
  p_idempotencyKey :: string
  p_failureCode :: "string option"
  p_failureMessage :: "string option"

record Refund =
  rf_id :: string
  rf_orderId :: string
  rf_paymentId :: string
  rf_shift4RefundId :: "string option"
  rf_amount :: int
  rf_currency :: string
  rf_status :: RefundStatus
  rf_reason :: "string option"
  rf_idempotencyKey :: string
  rf_failureMessage :: "string option"

record Order =
  o_id :: string
  o_orderNumber :: string
  o_total :: int
  o_currency :: string
  o_status :: OrderStatus
  o_refundedTotal :: int

text \<open>
  A webhook payload: the properties the receiver and the event handlers read, each absent
  or of the type the handlers expect.
\<close>

record EventData =
  d_id :: "string option"
  d_chargeId :: "string option"
  d_amount :: "int option"
  d_currency :: "string option"
  d_reason :: "string option"
  d_status :: "string option"
  d_outcome :: "string option"
  d_failureMessage :: "string option"
  d_evidenceDeadline :: "int option"
  d_arrivalDate :: "int option"
  d_description :: "string option"
  d_refunds :: "string option list option"

record Payload =
  w_id :: "string option"
  w_eventId :: "string option"
  w_type :: "string option"
  w_data :: "EventData option"

record WebhookEvent =
  we_id :: string
  we_eventId :: string
  we_eventType :: string
  we_payload :: Payload
  we_processed :: bool
  we_processingError :: "string option"
  we_retryCount :: int

datatype DisputeStatus = NEEDS_RESPONSE | WON | LOST

record Dispute =
  dp_orderId :: string
  dp_shift4DisputeId :: "string option"
  dp_shift4ChargeId :: "string option"
  dp_amount :: int
  dp_currency :: string
  dp_status :: DisputeStatus
  dp_reason :: string
  dp_evidenceDeadline :: "int option"
  dp_resolution :: "string option"

datatype PayoutStatus = PAID | PENDING

record Payout =
  po_shift4PayoutId :: string
  po_amount :: int
  po_currency :: string
  po_status :: PayoutStatus
  po_arrivalDate :: "int option"
  po_description :: "string option"

record Db =
  payments :: "Payment list"
  refunds :: "Refund list"
  orders :: "Order list"
  webhookEvents :: "WebhookEvent list"
  disputes :: "Dispute list"
  payouts :: "Payout list"

text \<open>
  \<open>update\<close> with a unique \<open>where\<close> changes the row that \<open>findUnique\<close> returns: the
  first one that matches.
\<close>

fun update_first :: "('a \<Rightarrow> bool) \<Rightarrow> ('a \<Rightarrow> 'a) \<Rightarrow> 'a list \<Rightarrow> 'a list" where
  "update_first P f [] = []"
| "update_first P f (x # xs) = (if P x then f x # xs else x # update_first P f xs)"

text \<open>
  \<open>updateMany\<close> changes every row that matches. A \<open>where\<close> value that is \<open>undefined\<close>
  is no condition at all in Prisma, so every row matches; a defined value matches the
  rows whose column holds it.
\<close>

definition where_eq :: "string option \<Rightarrow> string option \<Rightarrow> bool" where
  "where_eq w col = (case w of None \<Rightarrow> True | Some v \<Rightarrow> col = Some v)"

section \<open>POST /api/v1/refunds\<close>

record RefundBody =
  b_paymentId :: string
  b_amount :: "int option"
  b_reason :: "string option"

text \<open>
  What the handler takes from outside: whether the Shift4 keys are configured
  (\<open>createShift4Adapter\<close> throws otherwise), the gateway's answer to the refund call, the
  id the store gives the new refund row, and the \<open>nanoid\<close> of the idempotency key.
\<close>

record RefundsEnv =
  shift4_configured :: bool
  post_refunds :: "RefundPayload \<Rightarrow> AxiosError + RefundData"
  new_refund_id :: string
  refund_nanoid :: string

text \<open>\<open>body.amount || payment.amount\<close>\<close>

definition refundAmount :: "RefundBody \<Rightarrow> Payment \<Rightarrow> int" where
  "refundAmount body payment =
     (case b_amount body of
        None \<Rightarrow> p_amount payment
      | Some a \<Rightarrow> if a \<noteq> 0 then a else p_amount payment)"

definition existingRefunds :: "Db \<Rightarrow> Payment \<Rightarrow> Refund list" where
  "existingRefunds db payment =
     filter (\<lambda>r. rf_paymentId r = p_id payment \<and> rf_status r = R_SUCCEEDED) (refunds db)"

definition totalRefunded :: "Db \<Rightarrow> Payment \<Rightarrow> int" where
  "totalRefunded db payment = foldl (\<lambda>sum r. sum + rf_amount r) 0 (existingRefunds db payment)"

definition availableToRefund :: "Db \<Rightarrow> Payment \<Rightarrow> int" where
  "availableToRefund db payment = p_amount payment - totalRefunded db payment"

definition null_total_message :: string where
  "null_total_message =
     ''Cannot read properties of null (reading '' @ [CHR 0x27] @ ''total'' @ [CHR 0x27] @ '')''"

text \<open>The three writes of an accepted refund, each a single Prisma call.\<close>

definition refund_create :: "Refund \<Rightarrow> Db \<Rightarrow> Db" where
  "refund_create refund db = db\<lparr>refunds := refunds db @ [refund]\<rparr>"

definition payment_update_status :: "string \<Rightarrow> PaymentStatus \<Rightarrow> Db \<Rightarrow> Db" where
  "payment_update_status pid st db =
     db\<lparr>payments := update_first (\<lambda>p. p_id p = pid) (\<lambda>p. p\<lparr>p_status := st\<rparr>) (payments db)\<rparr>"

definition order_update_refunded :: "string \<Rightarrow> int \<Rightarrow> OrderStatus \<Rightarrow> Db \<Rightarrow> Db" where
  "order_update_refunded oid amount st db =
     db\<lparr>orders :=
          update_first (\<lambda>ord. o_id ord = oid)
            (\<lambda>ord. ord\<lparr>o_refundedTotal := o_refundedTotal ord + amount, o_status := st\<rparr>)
            (orders db)\<rparr>"

text \<open>The request sent to the adapter and the row stored for its answer.\<close>

definition refundRequest :: "RefundBody \<Rightarrow> Payment \<Rightarrow> CreateRefundRequest" where
  "refundRequest body payment =
     \<lparr>rq_chargeId = p_shift4ChargeId payment,
      rq_amount = Some (refundAmount body payment),
      rq_reason = b_reason body,
      rq_orderId = p_orderId payment,
      rq_paymentId = p_id payment\<rparr>"

definition refundRecord ::
  "RefundsEnv \<Rightarrow> RefundBody \<Rightarrow> Payment \<Rightarrow> CreateRefundResponse \<Rightarrow> Refund" where
  "refundRecord env body payment refundResult =
     \<lparr>rf_id = new_refund_id env,
      rf_orderId = p_orderId payment,
      rf_paymentId = p_id payment,
      rf_shift4RefundId = Some (rr_refundId refundResult),
      rf_amount = refundAmount body payment,
      rf_currency = p_currency payment,
      rf_status = (if rr_status refundResult = St_succeeded then R_SUCCEEDED else R_PENDING),
      rf_reason = b_reason body,
      rf_idempotencyKey = generateIdempotencyKey (refund_nanoid env) ''ref'',
      rf_failureMessage = None\<rparr>"

text \<open>
  \<open>newTotalRefunded >= payment.amount ? 'REFUNDED' : 'PARTIALLY_REFUNDED'\<close>, and the same
  test against \<open>payment.order.total\<close> for the order.
\<close>

definition paymentStatusAfter :: "int \<Rightarrow> Payment \<Rightarrow> PaymentStatus" where
  "paymentStatusAfter newTotalRefunded payment =
     (if newTotalRefunded \<ge> p_amount payment then P_REFUNDED else P_PARTIALLY_REFUNDED)"

definition orderStatusAfter :: "int \<Rightarrow> Order \<Rightarrow> OrderStatus" where
  "orderStatusAfter newTotalRefunded order =
     (if newTotalRefunded \<ge> o_total order then O_REFUNDED else O_PARTIALLY_REFUNDED)"

text \<open>
  The handler returns the response, the store after its writes, and the refund payloads it
  posted to the gateway. A thrown error is caught by the handler's \<open>catch\<close> and answered
  with \<open>errorResponse(error)\<close>; the writes made before the throw stay. \<open>payment.order\<close>
  is the row of \<open>payment.orderId\<close>; reading \<open>total\<close> of a missing one is a TypeError.
\<close>

definition POST_refunds ::
  "RefundsEnv \<Rightarrow> RefundBody option \<Rightarrow> Db \<Rightarrow> Refund HttpResponse \<times> Db \<times> RefundPayload list" where
  "POST_refunds env req db =
     (case req of
        None \<Rightarrow> (errorResponse (PlainErr ''Invalid JSON body'') 500, db, [])
      | Some body \<Rightarrow>
     (case find (\<lambda>p. p_id p = b_paymentId body) (payments db) of
        None \<Rightarrow> (errorResponse (PlainErr ''Payment not found'') 404, db, [])
      | Some payment \<Rightarrow>
          if p_status payment = P_REFUNDED then
            (errorResponse (PlainErr ''Payment already refunded'') 400, db, [])
          else if refundAmount body payment > availableToRefund db payment then
            (errorResponse
               (PlainErr (''Cannot refund more than '' @ show_int (availableToRefund db payment)
                            @ '' cents'')) 400, db, [])
          else if p_methodType payment = CARD_ONLINE \<or> p_methodType payment = SAVED_CARD then
            (if \<not> shift4_configured env then
               (errorResponse
                  (PlainErr ''SHIFT4_PUBLIC_KEY and SHIFT4_SECRET_KEY must be set'') 500, db, [])
             else
               (case createRefund (post_refunds env) (refundRequest body payment) of
                  Inl e \<Rightarrow> (errorResponse e 500, db, [refund_payload (refundRequest body payment)])
                | Inr refundResult \<Rightarrow>
                    (let refund = refundRecord env body payment refundResult;
                         db1 = refund_create refund db;
                         newTotalRefunded = totalRefunded db payment + refundAmount body payment;
                         db2 = payment_update_status (p_id payment)
                                 (paymentStatusAfter newTotalRefunded payment) db1
                     in case find (\<lambda>ord. o_id ord = p_orderId payment) (orders db) of
                          None \<Rightarrow>
                            (errorResponse (PlainErr null_total_message) 500, db2,
                             [refund_payload (refundRequest body payment)])
                        | Some order \<Rightarrow>
                            (successResponse refund 200,
                             order_update_refunded (p_orderId payment) (refundAmount body payment)
                               (orderStatusAfter newTotalRefunded order) db2,
                             [refund_payload (refundRequest body payment)]))))
          else (errorResponse (PlainErr ''Terminal refunds not yet implemented'') 501, db, [])))"

subsection \<open>The two phases of a refund request\<close>

text \<open>
  The handler does not run in a transaction. It reads the payment (with its order) and
  the SUCCEEDED refunds, checks the amount, then awaits the gateway, and only after the
  gateway's answer writes the refund row and the two status updates. Between the reads
  and the writes other requests can run. \<open>refunds_read\<close> is the handler up to the gateway
  call: it returns the response of an early \<open>return\<close>, or the values the handler holds
  when it calls the gateway. \<open>refunds_write\<close> is the rest, applied to the store as it is
  when the gateway has answered.
\<close>

record RefundRead =
  rx_body :: RefundBody
  rx_payment :: Payment
  rx_order :: "Order option"
  rx_totalRefunded :: int

definition refunds_read ::
  "RefundsEnv \<Rightarrow> RefundBody option \<Rightarrow> Db \<Rightarrow> Refund HttpResponse + RefundRead" where
  "refunds_read env req db =
     (case req of
        None \<Rightarrow> Inl (errorResponse (PlainErr ''Invalid JSON body'') 500)
      | Some body \<Rightarrow>
     (case find (\<lambda>p. p_id p = b_paymentId body) (payments db) of
        None \<Rightarrow> Inl (errorResponse (PlainErr ''Payment not found'') 404)
      | Some payment \<Rightarrow>
          if p_status payment = P_REFUNDED then
            Inl (errorResponse (PlainErr ''Payment already refunded'') 400)
          else if refundAmount body payment > availableToRefund db payment then
            Inl (errorResponse
                   (PlainErr (''Cannot refund more than '' @ show_int (availableToRefund db payment)
                                @ '' cents'')) 400)
          else if p_methodType payment = CARD_ONLINE \<or> p_methodType payment = SAVED_CARD then
            (if \<not> shift4_configured env then
               Inl (errorResponse
                      (PlainErr ''SHIFT4_PUBLIC_KEY and SHIFT4_SECRET_KEY must be set'') 500)
             else
               Inr \<lparr>rx_body = body, rx_payment = payment,
                    rx_order = find (\<lambda>ord. o_id ord = p_orderId payment) (orders db),
                    rx_totalRefunded = totalRefunded db payment\<rparr>)
          else Inl (errorResponse (PlainErr ''Terminal refunds not yet implemented'') 501)))"

definition refunds_write ::
  "RefundsEnv \<Rightarrow> RefundRead \<Rightarrow> Db \<Rightarrow> Refund HttpResponse \<times> Db \<times> RefundPayload list" where
  "refunds_write env rx db =
     (let body = rx_body rx; payment = rx_payment rx
      in case createRefund (post_refunds env) (refundRequest body payment) of
           Inl e \<Rightarrow> (errorResponse e 500, db, [refund_payload (refundRequest body payment)])
         | Inr refundResult \<Rightarrow>
             (let refund = refundRecord env body payment refundResult;
                  db1 = refund_create refund db;
                  newTotalRefunded = rx_totalRefunded rx + refundAmount body payment;
                  db2 = payment_update_status (p_id payment)
                          (paymentStatusAfter newTotalRefunded payment) db1
              in case rx_order rx of
                   None \<Rightarrow>
                     (errorResponse (PlainErr null_total_message) 500, db2,
                      [refund_payload (refundRequest body payment)])
                 | Some order \<Rightarrow>
                     (successResponse refund 200,
                      order_update_refunded (p_orderId payment) (refundAmount body payment)
                        (orderStatusAfter newTotalRefunded order) db2,
                      [refund_payload (refundRequest body payment)])))"

text \<open>
  Two requests that overlap: both read the store before either writes, then the first
  writes and the second writes on the store the first has left.
\<close>

definition overlapped ::
  "RefundsEnv \<Rightarrow> RefundBody \<Rightarrow> RefundsEnv \<Rightarrow> RefundBody \<Rightarrow> Db \<Rightarrow>
     (Refund HttpResponse \<times> Refund HttpResponse \<times> Db) option" where
  "overlapped envA bodyA envB bodyB db =
     (case (refunds_read envA (Some bodyA) db, refunds_read envB (Some bodyB) db) of
        (Inr rxA, Inr rxB) \<Rightarrow>
          (case refunds_write envA rxA db of
             (responseA, dbA, callsA) \<Rightarrow>
               (case refunds_write envB rxB dbA of
                  (responseB, dbB, callsB) \<Rightarrow> Some (responseA, responseB, dbB)))
      | _ \<Rightarrow> None)"


section \<open>POST /api/v1/checkout/online/confirm\<close>

text \<open>
  \<open>Shift4Adapter.createCharge\<close>: the token goes into the payload as \<open>card\<close>, else the
  customer id; with neither the adapter throws before it posts anything. The request type
  has no field for an idempotency key, and the payload carries none.
\<close>

record CreateChargeRequest =
  cq_amount :: int
  cq_currency :: string
  cq_token :: "string option"
  cq_customerId :: "string option"
  cq_description :: string
  cq_capture :: "bool option"
  cq_orderId :: string
  cq_orderNumber :: string

record ChargePayload =
  cp_amount :: int
  cp_currency :: string
  cp_captured :: bool
  cp_description :: string
  cp_card :: "string option"
  cp_customerId :: "string option"
  cp_orderId :: string
  cp_orderNumber :: string

record ChargeData =
  cd_id :: string
  cd_amount :: int
  cd_currency :: string
  cd_status :: string
  cd_captured :: bool
  cd_failureCode :: "string option"
  cd_failureMessage :: "string option"

record CreateChargeResponse =
  cr_chargeId :: string
  cr_amount :: int
  cr_currency :: string
  cr_status :: Shift4Status
  cr_captured :: bool
  cr_failureCode :: "string option"
  cr_failureMessage :: "string option"

definition mapChargeStatus :: "ChargeData \<Rightarrow> Shift4Status" where
  "mapChargeStatus charge =
     (if cd_status charge = ''successful'' then St_succeeded
      else if cd_status charge = ''failed'' then St_failed
      else St_pending)"

definition charge_payload :: "CreateChargeRequest \<Rightarrow> ChargePayload" where
  "charge_payload request =
     \<lparr>cp_amount = cq_amount request,
      cp_currency = cq_currency request,
      cp_captured = (case cq_capture request of None \<Rightarrow> True | Some c \<Rightarrow> c),
      cp_description = cq_description request,
      cp_card = (if truthy_str (cq_token request) then cq_token request else None),
      cp_customerId =
        (if \<not> truthy_str (cq_token request) \<and> truthy_str (cq_customerId request)
         then cq_customerId request else None),
      cp_orderId = cq_orderId request,
      cp_orderNumber = cq_orderNumber request\<rparr>"

text \<open>The result of the call and the payloads posted to \<open>/charges\<close>.\<close>

definition createCharge ::
  "(ChargePayload \<Rightarrow> AxiosError + ChargeData) \<Rightarrow> CreateChargeRequest \<Rightarrow>
     (JsError + CreateChargeResponse) \<times> ChargePayload list" where
  "createCharge post request =
     (if \<not> truthy_str (cq_token request) \<and> \<not> truthy_str (cq_customerId request) then
        (Inl (PaymentErr (InvalidRequestError ''Either token or customerId is required'')), [])
      else
        (case post (charge_payload request) of
           Inl e \<Rightarrow> (Inl (PaymentErr (handleError e)), [charge_payload request])
         | Inr charge \<Rightarrow>
             (Inr \<lparr>cr_chargeId = cd_id charge, cr_amount = cd_amount charge,
                   cr_currency = cd_currency charge, cr_status = mapChargeStatus charge,
                   cr_captured = cd_captured charge, cr_failureCode = cd_failureCode charge,
                   cr_failureMessage = cd_failureMessage charge\<rparr>,
              [charge_payload request])))"

record ConfirmRequest =
  c_orderId :: string
  c_token :: "string option"
  c_customerId :: "string option"
  c_saveMethod :: "bool option"

record ConfirmEnv =
  confirm_configured :: bool
  post_charges :: "ChargePayload \<Rightarrow> AxiosError + ChargeData"
  new_payment_id :: string
  payment_nanoid :: string

record ConfirmResult =
  cf_paymentId :: string
  cf_orderId :: string
  cf_orderNumber :: string
  cf_amount :: int
  cf_currency :: string
  cf_status :: PaymentStatus

definition payment_create :: "Payment \<Rightarrow> Db \<Rightarrow> Db" where
  "payment_create payment db = db\<lparr>payments := payments db @ [payment]\<rparr>"

definition order_update_status :: "string \<Rightarrow> OrderStatus \<Rightarrow> Db \<Rightarrow> Db" where
  "order_update_status oid st db =
     db\<lparr>orders := update_first (\<lambda>ord. o_id ord = oid) (\<lambda>ord. ord\<lparr>o_status := st\<rparr>) (orders db)\<rparr>"

definition chargeRequest :: "ConfirmRequest \<Rightarrow> Order \<Rightarrow> CreateChargeRequest" where
  "chargeRequest body order =
     \<lparr>cq_amount = o_total order,
      cq_currency = o_currency order,
      cq_token = c_token body,
      cq_customerId = c_customerId body,
      cq_description = ''Payment for '' @ o_orderNumber order,
      cq_capture = Some True,
      cq_orderId = o_id order,
      cq_orderNumber = o_orderNumber order\<rparr>"

definition paymentRecord ::
  "ConfirmEnv \<Rightarrow> ConfirmRequest \<Rightarrow> Order \<Rightarrow> CreateChargeResponse \<Rightarrow> Payment" where
  "paymentRecord env body order chargeResult =
     \<lparr>p_id = new_payment_id env,
      p_orderId = o_id order,
      p_customerId = c_customerId body,
      p_shift4ChargeId = Some (cr_chargeId chargeResult),
      p_amount = cr_amount chargeResult,
      p_currency = cr_currency chargeResult,
      p_status = (if cr_status chargeResult = St_succeeded then P_CAPTURED else P_FAILED),
      p_methodType = CARD_ONLINE,
      p_idempotencyKey = generateIdempotencyKey (payment_nanoid env) ''pay'',
      p_failureCode = cr_failureCode chargeResult,
      p_failureMessage = cr_failureMessage chargeResult\<rparr>"

text \<open>
  The handler generates the idempotency key, calls \<open>createCharge\<close> without it, and stores
  it in the payment row. It returns the response, the store and the charge payloads it
  posted to the gateway.
\<close>

definition POST_confirm ::
  "ConfirmEnv \<Rightarrow> ConfirmRequest option \<Rightarrow> Db \<Rightarrow>
     ConfirmResult HttpResponse \<times> Db \<times> ChargePayload list" where
  "POST_confirm env req db =
     (case req of
        None \<Rightarrow> (errorResponse (PlainErr ''Invalid JSON body'') 500, db, [])
      | Some body \<Rightarrow>
     (case find (\<lambda>ord. o_id ord = c_orderId body) (orders db) of
        None \<Rightarrow> (errorResponse (PlainErr ''Order not found'') 404, db, [])
      | Some order \<Rightarrow>
          if o_status order \<noteq> O_DRAFT \<and> o_status order \<noteq> O_PENDING_PAYMENT then
            (errorResponse (PlainErr ''Order cannot be paid'') 400, db, [])
          else if \<not> confirm_configured env then
            (errorResponse
               (PlainErr ''SHIFT4_PUBLIC_KEY and SHIFT4_SECRET_KEY must be set'') 500, db, [])
          else
            (case createCharge (post_charges env) (chargeRequest body order) of
               (Inl e, posted) \<Rightarrow> (errorResponse e 500, db, posted)
             | (Inr chargeResult, posted) \<Rightarrow>
                 (let payment = paymentRecord env body order chargeResult;
                      db1 = payment_create payment db;
                      db2 = order_update_status (o_id order)
                              (if cr_status chargeResult = St_succeeded then O_PAID
                               else O_PENDING_PAYMENT) db1
                  in (successResponse
                        \<lparr>cf_paymentId = p_id payment, cf_orderId = o_id order,
                         cf_orderNumber = o_orderNumber order, cf_amount = p_amount payment,
                         cf_currency = p_currency payment, cf_status = p_status payment\<rparr> 200,
                      db2, posted)))))"

section \<open>POST /api/v1/webhooks/shift4\<close>

text \<open>
  The receiver answers \<open>new Response('OK', {status: 200})\<close> or an error response. It does
  not await \<open>processWebhookEvent\<close>: the call is handed off and runs after the response,
  so the receiver returns the call's arguments as a task, and the processing is a step of
  its own that takes the store as it is when the task runs.
\<close>

record Task =
  t_webhookEventId :: string
  t_eventId :: string
  t_eventType :: string

definition webhookEvent_upsert ::
  "string \<Rightarrow> string \<Rightarrow> string \<Rightarrow> Payload \<Rightarrow> Db \<Rightarrow> WebhookEvent \<times> Db" where
  "webhookEvent_upsert new_id eventId eventType payload db =
     (case find (\<lambda>e. we_eventId e = eventId) (webhookEvents db) of
        Some existing \<Rightarrow>
          (existing\<lparr>we_retryCount := we_retryCount existing + 1\<rparr>,
           db\<lparr>webhookEvents :=
                update_first (\<lambda>e. we_eventId e = eventId)
                  (\<lambda>e. e\<lparr>we_retryCount := we_retryCount e + 1\<rparr>) (webhookEvents db)\<rparr>)
      | None \<Rightarrow>
          (let created =
                 \<lparr>we_id = new_id, we_eventId = eventId, we_eventType = eventType,
                  we_payload = payload, we_processed = False, we_processingError = None,
                  we_retryCount = 0\<rparr>
           in (created, db\<lparr>webhookEvents := webhookEvents db @ [created]\<rparr>)))"

text \<open>
  The request body is the parsed payload, or the message of the error that \<open>req.json()\<close>
  threw. The two store calls of the receiver, \<open>webhookEvent.findUnique\<close> and
  \<open>webhookEvent.upsert\<close>, are awaited inside the \<open>try\<close>: when one of them rejects, the
  \<open>catch\<close> answers \<open>errorResponse(error)\<close>, nothing is written and \<open>processWebhookEvent\<close>
  is not called. \<open>rc_findUnique_fault\<close> and \<open>rc_upsert_fault\<close> are the messages of such
  errors (\<open>None\<close> when the call answers); \<open>rc_new_id\<close> is the id the store gives a newly
  created event row.
\<close>

record ReceiverEnv =
  rc_new_id :: string
  rc_findUnique_fault :: "string option"
  rc_upsert_fault :: "string option"

definition enqueue ::
  "ReceiverEnv \<Rightarrow> string \<Rightarrow> string \<Rightarrow> Payload \<Rightarrow> Db \<Rightarrow> string HttpResponse \<times> Db \<times> Task option" where
  "enqueue env eid ety payload db =
     (case rc_upsert_fault env of
        Some m \<Rightarrow> (errorResponse (PlainErr m) 500, db, None)
      | None \<Rightarrow>
          (case webhookEvent_upsert (rc_new_id env) eid ety payload db of
             (webhookEvent, db1) \<Rightarrow>
               (SuccessResponse 200 ''OK'', db1,
                Some \<lparr>t_webhookEventId = we_id webhookEvent, t_eventId = eid,
                      t_eventType = ety\<rparr>)))"

definition POST_webhook ::
  "ReceiverEnv \<Rightarrow> string + Payload \<Rightarrow> Db \<Rightarrow> string HttpResponse \<times> Db \<times> Task option" where
  "POST_webhook env req db =
     (case req of
        Inl m \<Rightarrow> (errorResponse (PlainErr m) 500, db, None)
      | Inr payload \<Rightarrow>
          (let eventId = or_str (w_id payload) (w_eventId payload);
               eventType = w_type payload
           in case (eventId, eventType) of
                (Some eid, Some ety) \<Rightarrow>
                  if eid = [] \<or> ety = [] then
                    (errorResponse (PlainErr ''Invalid webhook payload'') 400, db, None)
                  else
                    (case rc_findUnique_fault env of
                       Some m \<Rightarrow> (errorResponse (PlainErr m) 500, db, None)
                     | None \<Rightarrow>
                         (case find (\<lambda>e. we_eventId e = eid) (webhookEvents db) of
                            Some existing \<Rightarrow>
                              if we_processed existing then (SuccessResponse 200 ''OK'', db, None)
                              else enqueue env eid ety payload db
                          | None \<Rightarrow> enqueue env eid ety payload db))
              | _ \<Rightarrow> (errorResponse (PlainErr ''Invalid webhook payload'') 400, db, None)))"

subsection \<open>Event handlers\<close>

text \<open>\<open>data.data?.id || data.id\<close>, and the other optional reads of the payload.\<close>

definition data_field :: "(EventData \<Rightarrow> 'a option) \<Rightarrow> Payload \<Rightarrow> 'a option" where
  "data_field f data = (case w_data data of None \<Rightarrow> None | Some d \<Rightarrow> f d)"

definition object_id :: "Payload \<Rightarrow> string option" where
  "object_id data = or_str (data_field d_id data) (w_id data)"

text \<open>\<open>data.data?.refunds?.[0]?.id\<close>\<close>

definition first_refund_id :: "Payload \<Rightarrow> string option" where
  "first_refund_id data =
     (case data_field d_refunds data of
        None \<Rightarrow> None
      | Some [] \<Rightarrow> None
      | Some (r # rs) \<Rightarrow> r)"

definition payment_updateMany_status :: "string option \<Rightarrow> PaymentStatus \<Rightarrow> Db \<Rightarrow> Db" where
  "payment_updateMany_status chargeId st db =
     db\<lparr>payments :=
          map (\<lambda>p. if where_eq chargeId (p_shift4ChargeId p) then p\<lparr>p_status := st\<rparr> else p)
            (payments db)\<rparr>"

text \<open>
  In the \<open>data\<close> of an update a value that is \<open>undefined\<close> leaves the column as it is.
\<close>

definition refund_updateMany ::
  "string option \<Rightarrow> RefundStatus \<Rightarrow> string option \<Rightarrow> Db \<Rightarrow> Db" where
  "refund_updateMany refundId st failureMessage db =
     db\<lparr>refunds :=
          map (\<lambda>r. if where_eq refundId (rf_shift4RefundId r) then
                     r\<lparr>rf_status := st,
                       rf_failureMessage :=
                         (case failureMessage of None \<Rightarrow> rf_failureMessage r | Some m \<Rightarrow> Some m)\<rparr>
                   else r)
            (refunds db)\<rparr>"

definition handleChargeSucceeded :: "Payload \<Rightarrow> Db \<Rightarrow> Db" where
  "handleChargeSucceeded data db = payment_updateMany_status (object_id data) P_CAPTURED db"

definition handleChargeFailed :: "Payload \<Rightarrow> Db \<Rightarrow> Db" where
  "handleChargeFailed data db = payment_updateMany_status (object_id data) P_FAILED db"

definition handleChargeCaptured :: "Payload \<Rightarrow> Db \<Rightarrow> Db" where
  "handleChargeCaptured data db = payment_updateMany_status (object_id data) P_CAPTURED db"

definition handleChargeRefunded :: "Payload \<Rightarrow> Db \<Rightarrow> Db" where
  "handleChargeRefunded data db =
     (let db1 = payment_updateMany_status (object_id data) P_REFUNDED db
      in if truthy_str (first_refund_id data)
         then refund_updateMany (first_refund_id data) R_SUCCEEDED None db1
         else db1)"

definition handleRefundSucceeded :: "Payload \<Rightarrow> Db \<Rightarrow> Db" where
  "handleRefundSucceeded data db = refund_updateMany (object_id data) R_SUCCEEDED None db"

definition handleRefundFailed :: "Payload \<Rightarrow> Db \<Rightarrow> Db" where
  "handleRefundFailed data db =
     refund_updateMany (object_id data) R_FAILED (data_field d_failureMessage data) db"

definition handleDisputeCreated :: "Payload \<Rightarrow> Db \<Rightarrow> Db" where
  "handleDisputeCreated data db =
     (case find (\<lambda>p. where_eq (data_field d_chargeId data) (p_shift4ChargeId p)) (payments db) of
        None \<Rightarrow> db
      | Some payment \<Rightarrow>
          db\<lparr>disputes := disputes db @
               [\<lparr>dp_orderId = p_orderId payment,
                 dp_shift4DisputeId = object_id data,
                 dp_shift4ChargeId = data_field d_chargeId data,
                 dp_amount =
                   (case data_field d_amount data of
                      Some a \<Rightarrow> if a \<noteq> 0 then a else p_amount payment
                    | None \<Rightarrow> p_amount payment),
                 dp_currency =
                   (case data_field d_currency data of
                      Some c \<Rightarrow> if c \<noteq> [] then c else p_currency payment
                    | None \<Rightarrow> p_currency payment),
                 dp_status = NEEDS_RESPONSE,
                 dp_reason =
                   (case data_field d_reason data of
                      Some r \<Rightarrow> if r \<noteq> [] then r else ''unknown''
                    | None \<Rightarrow> ''unknown''),
                 dp_evidenceDeadline =
                   (if truthy_num (data_field d_evidenceDeadline data)
                    then map_option (\<lambda>t. t * 1000) (data_field d_evidenceDeadline data)
                    else None),
                 dp_resolution = None\<rparr>]\<rparr>)"

definition handleDisputeClosed :: "Payload \<Rightarrow> Db \<Rightarrow> Db" where
  "handleDisputeClosed data db =
     db\<lparr>disputes :=
          map (\<lambda>d. if where_eq (object_id data) (dp_shift4DisputeId d) then
                     d\<lparr>dp_status := (if data_field d_status data = Some ''won'' then WON else LOST),
                       dp_resolution :=
                         (case data_field d_outcome data of
                            None \<Rightarrow> dp_resolution d | Some v \<Rightarrow> Some v)\<rparr>
                   else d)
            (disputes db)\<rparr>"

text \<open>
  \<open>upsert\<close> needs a value for its unique \<open>where\<close>; with \<open>undefined\<close> Prisma rejects the
  call with a validation error.
\<close>

definition payout_validation_message :: string where
  "payout_validation_message = ''Invalid prisma.payout.upsert() invocation''"

definition handlePayout :: "Payload \<Rightarrow> Db \<Rightarrow> JsError + Db" where
  "handlePayout data db =
     (case object_id data of
        None \<Rightarrow> Inl (PlainErr payout_validation_message)
      | Some payoutId \<Rightarrow>
          (let st = (if w_type data = Some ''payout.paid'' then PAID else PENDING)
           in case find (\<lambda>p. po_shift4PayoutId p = payoutId) (payouts db) of
                Some existing \<Rightarrow>
                  Inr (db\<lparr>payouts :=
                            update_first (\<lambda>p. po_shift4PayoutId p = payoutId)
                              (\<lambda>p. p\<lparr>po_status := st\<rparr>) (payouts db)\<rparr>)
              | None \<Rightarrow>
                  Inr (db\<lparr>payouts := payouts db @
                            [\<lparr>po_shift4PayoutId = payoutId,
                              po_amount =
                                (case data_field d_amount data of Some a \<Rightarrow> a | None \<Rightarrow> 0),
                              po_currency =
                                (case data_field d_currency data of
                                   Some c \<Rightarrow> if c \<noteq> [] then c else ''usd''
                                 | None \<Rightarrow> ''usd''),
                              po_status = st,
                              po_arrivalDate =
                                (if truthy_num (data_field d_arrivalDate data)
                                 then map_option (\<lambda>t. t * 1000) (data_field d_arrivalDate data)
                                 else None),
                              po_description = data_field d_description data\<rparr>]\<rparr>)))"

subsection \<open>processWebhookEvent\<close>

text \<open>
  Every store call of the processing run is awaited inside its \<open>try\<close> and can reject (the
  connection is lost, a constraint is violated). The fields are the messages of such
  errors, \<open>None\<close> when the call answers: \<open>pf_findUnique\<close> for the lookup of the event
  row, \<open>pf_handler\<close> for the first database call of the handler, before it has written
  anything, \<open>pf_processed\<close> for the update that sets \<open>processed\<close>, and \<open>pf_processingError\<close>
  for the update inside the \<open>catch\<close>.
\<close>

record ProcessingFaults =
  pf_findUnique :: "string option"
  pf_handler :: "string option"
  pf_processed :: "string option"
  pf_processingError :: "string option"

text \<open>The \<open>switch\<close> on the event type. An event type without a case makes no database call.\<close>

definition dispatch :: "string option \<Rightarrow> string \<Rightarrow> Payload \<Rightarrow> Db \<Rightarrow> JsError + Db" where
  "dispatch fault eventType data db =
     (if eventType \<in> set [''charge.succeeded'', ''charge.failed'', ''charge.captured'',
                          ''charge.refunded'', ''charge.dispute.created'',
                          ''charge.dispute.closed'', ''refund.succeeded'', ''refund.failed'',
                          ''payout.created'', ''payout.paid'']
      then
        (case fault of
           Some m \<Rightarrow> Inl (PlainErr m)
         | None \<Rightarrow>
             if eventType = ''charge.succeeded'' then Inr (handleChargeSucceeded data db)
             else if eventType = ''charge.failed'' then Inr (handleChargeFailed data db)
             else if eventType = ''charge.captured'' then Inr (handleChargeCaptured data db)
             else if eventType = ''charge.refunded'' then Inr (handleChargeRefunded data db)
             else if eventType = ''charge.dispute.created'' then Inr (handleDisputeCreated data db)
             else if eventType = ''charge.dispute.closed'' then Inr (handleDisputeClosed data db)
             else if eventType = ''refund.succeeded'' then Inr (handleRefundSucceeded data db)
             else if eventType = ''refund.failed'' then Inr (handleRefundFailed data db)
             else handlePayout data db)
      else Inr db)"

text \<open>
  The update of one event row by its id, which rejects when the call fails and when
  there is no such row.
\<close>

definition record_not_found_message :: string where
  "record_not_found_message = ''Record to update not found.''"

definition webhookEvent_update ::
  "string option \<Rightarrow> string \<Rightarrow> (WebhookEvent \<Rightarrow> WebhookEvent) \<Rightarrow> Db \<Rightarrow> JsError + Db" where
  "webhookEvent_update fault wid f db =
     (case fault of
        Some m \<Rightarrow> Inl (PlainErr m)
      | None \<Rightarrow>
          (case find (\<lambda>e. we_id e = wid) (webhookEvents db) of
             None \<Rightarrow> Inl (PlainErr record_not_found_message)
           | Some e \<Rightarrow>
               Inr (db\<lparr>webhookEvents := update_first (\<lambda>e. we_id e = wid) f (webhookEvents db)\<rparr>)))"

text \<open>
  The \<open>catch\<close> block: store the message in \<open>processingError\<close>, then rethrow. When the
  update itself rejects, nothing is stored and that error is the one the call rejects
  with.
\<close>

definition processing_failed ::
  "ProcessingFaults \<Rightarrow> string \<Rightarrow> JsError \<Rightarrow> Db \<Rightarrow> Db \<times> JsError option" where
  "processing_failed faults wid error db =
     (case webhookEvent_update (pf_processingError faults) wid
             (\<lambda>e. e\<lparr>we_processingError := Some (error_text error)\<rparr>) db of
        Inl e' \<Rightarrow> (db, Some e')
      | Inr db' \<Rightarrow> (db', Some error))"

text \<open>
  The store after the run, and the error the returned promise rejects with (\<open>None\<close> when
  it resolves). The receiver's \<open>.catch\<close> only logs that error.
\<close>

definition processWebhookEvent :: "ProcessingFaults \<Rightarrow> Task \<Rightarrow> Db \<Rightarrow> Db \<times> JsError option" where
  "processWebhookEvent faults task db =
     (case pf_findUnique faults of
        Some m \<Rightarrow> processing_failed faults (t_webhookEventId task) (PlainErr m) db
      | None \<Rightarrow>
          (case find (\<lambda>e. we_id e = t_webhookEventId task) (webhookEvents db) of
             None \<Rightarrow>
               processing_failed faults (t_webhookEventId task)
                 (PlainErr ''Webhook event not found'') db
           | Some webhookEvent \<Rightarrow>
               (case dispatch (pf_handler faults) (t_eventType task) (we_payload webhookEvent) db of
                  Inl error \<Rightarrow> processing_failed faults (t_webhookEventId task) error db
                | Inr db1 \<Rightarrow>
                    (case webhookEvent_update (pf_processed faults) (t_webhookEventId task)
                            (\<lambda>e. e\<lparr>we_processed := True\<rparr>) db1 of
                       Inl error \<Rightarrow> processing_failed faults (t_webhookEventId task) error db1
                     | Inr db2 \<Rightarrow> (db2, None)))))"

text \<open>
  One delivery, from the request to the end of its processing run, when nothing else
  happens in between.
\<close>

definition deliver ::
  "ProcessingFaults \<Rightarrow> ReceiverEnv \<Rightarrow> string + Payload \<Rightarrow> Db \<Rightarrow> string HttpResponse \<times> Db" where
  "deliver faults env req db =
     (case POST_webhook env req db of
        (response, db1, None) \<Rightarrow> (response, db1)
      | (response, db1, Some task) \<Rightarrow> (response, fst (processWebhookEvent faults task db1)))"

text \<open>A run in which every store call answers.\<close>

definition no_faults :: ProcessingFaults where
  "no_faults = \<lparr>pf_findUnique = None, pf_handler = None, pf_processed = None,
                pf_processingError = None\<rparr>"

definition receiver :: "string \<Rightarrow> ReceiverEnv" where
  "receiver new_id = \<lparr>rc_new_id = new_id, rc_findUnique_fault = None, rc_upsert_fault = None\<rparr>"

section \<open>SkyTab terminal adapter (payments/adapters/skytab-adapter.ts)\<close>

text \<open>
  The body of a transaction response of the device API: its \<open>status\<close> and the fields
  that \<open>parseTransactionData\<close> copies (the card, EMV and entry-mode fields are left out).
\<close>

record DeviceData =
  sd_status :: "string option"
  sd_transaction_id :: "string option"
  sd_amount :: "int option"
  sd_tip_amount :: "int option"
  sd_total_amount :: "int option"
  sd_auth_code :: "string option"
  sd_response_code :: "string option"
  sd_response_message :: "string option"

record PaymentResult =
  pr_transactionId :: string
  pr_approved :: bool
  pr_amount :: "int option"
  pr_tipAmount :: "int option"
  pr_totalAmount :: "int option"
  pr_authCode :: "string option"
  pr_responseCode :: "string option"
  pr_responseMessage :: "string option"
  pr_error :: "string option"
  pr_errorCode :: "string option"

text \<open>
  \<open>mapStatus\<close> looks the device status up in an object literal and falls back to
  \<open>'error'\<close>. The lookup also finds the properties every object inherits
  (\<open>constructor\<close>, \<open>toString\<close>, ...): for those names the result is the inherited value,
  which is truthy and equal to no status string.
\<close>

datatype MappedStatus =
  M_pending | M_approved | M_declined | M_cancelled | M_timeout | M_error | M_inherited string

definition object_prototype_keys :: "string list" where
  "object_prototype_keys =
     [''constructor'', ''__defineGetter__'', ''__defineSetter__'', ''hasOwnProperty'',
      ''__lookupGetter__'', ''__lookupSetter__'', ''isPrototypeOf'', ''propertyIsEnumerable'',
      ''toString'', ''valueOf'', ''__proto__'', ''toLocaleString'']"

definition mapStatus :: "string option \<Rightarrow> MappedStatus" where
  "mapStatus status =
     (case status of
        None \<Rightarrow> M_error
      | Some s \<Rightarrow>
          if s = ''pending'' then M_pending
          else if s = ''processing'' then M_pending
          else if s = ''approved'' then M_approved
          else if s = ''declined'' then M_declined
          else if s = ''cancelled'' then M_cancelled
          else if s = ''error'' then M_error
          else if s \<in> set object_prototype_keys then M_inherited s
          else M_error)"

definition parseTransactionData :: "DeviceData \<Rightarrow> string \<Rightarrow> PaymentResult" where
  "parseTransactionData data transactionId =
     (let approved = (sd_status data = Some ''approved'')
      in \<lparr>pr_transactionId = transactionId,
          pr_approved = approved,
          pr_amount = sd_amount data,
          pr_tipAmount = sd_tip_amount data,
          pr_totalAmount =
            (if truthy_num (sd_total_amount data) then sd_total_amount data else sd_amount data),
          pr_authCode = sd_auth_code data,
          pr_responseCode = sd_response_code data,
          pr_responseMessage = sd_response_message data,
          pr_error = (if approved then None else sd_response_message data),
          pr_errorCode = (if approved then None else sd_response_code data)\<rparr>)"

record TransactionStatus =
  ts_transactionId :: string
  ts_status :: MappedStatus
  ts_approved :: "bool option"
  ts_result :: "PaymentResult option"
  ts_error :: "string option"

text \<open>
  \<open>getStatus\<close> never throws: a failed request becomes the status \<open>'error'\<close> with the
  error's message. Its argument is the device's answer to the status request.
\<close>

definition getStatus :: "JsError + DeviceData \<Rightarrow> string \<Rightarrow> TransactionStatus" where
  "getStatus reply transactionId =
     (case reply of
        Inr data \<Rightarrow>
          \<lparr>ts_transactionId = transactionId,
           ts_status = mapStatus (sd_status data),
           ts_approved = Some (sd_status data = Some ''approved''),
           ts_result =
             (if sd_status data = Some ''approved''
              then Some (parseTransactionData data transactionId) else None),
           ts_error = None\<rparr>
      | Inl error \<Rightarrow>
          \<lparr>ts_transactionId = transactionId,
           ts_status = M_error,
           ts_approved = None,
           ts_result = None,
           ts_error = Some (error_text error)\<rparr>)"

text \<open>The four statuses that end the polling, and \<open>status.status.toUpperCase()\<close> on them.\<close>

definition is_complete :: "MappedStatus \<Rightarrow> bool" where
  "is_complete st = (st = M_approved \<or> st = M_declined \<or> st = M_cancelled \<or> st = M_error)"

definition status_upper :: "MappedStatus \<Rightarrow> string" where
  "status_upper st =
     (case st of
        M_pending \<Rightarrow> ''PENDING'' | M_approved \<Rightarrow> ''APPROVED'' | M_declined \<Rightarrow> ''DECLINED''
      | M_cancelled \<Rightarrow> ''CANCELLED'' | M_timeout \<Rightarrow> ''TIMEOUT'' | M_error \<Rightarrow> ''ERROR''
      | M_inherited s \<Rightarrow> s)"

definition poll_outcome :: "TransactionStatus \<Rightarrow> string \<Rightarrow> int \<Rightarrow> PaymentResult" where
  "poll_outcome status transactionId expectedAmount =
     (case ts_result status of
        Some result \<Rightarrow> result
      | None \<Rightarrow>
          \<lparr>pr_transactionId = transactionId,
           pr_approved = False,
           pr_amount = Some expectedAmount,
           pr_tipAmount = None,
           pr_totalAmount = Some expectedAmount,
           pr_authCode = None,
           pr_responseCode = None,
           pr_responseMessage = None,
           pr_error =
             (if truthy_str (ts_error status) then ts_error status
              else Some ''Transaction was not approved''),
           pr_errorCode = Some (status_upper (ts_status status))\<rparr>)"

text \<open>
  What the loop does to the outside: it sleeps, then asks the device for the status.
\<close>

datatype PollAction = Sleep int | StatusQuery string

text \<open>
  The \<open>for\<close> loop of \<open>pollTransactionStatus\<close>, from the attempt counter on.
  \<open>replies k\<close> is the device's answer to the status query of attempt \<open>k\<close>. The result is
  the actions performed and either the payment result or the error thrown.
\<close>

function poll_from ::
  "string \<Rightarrow> (nat \<Rightarrow> JsError + DeviceData) \<Rightarrow> string \<Rightarrow> int \<Rightarrow> nat \<Rightarrow> int \<Rightarrow> nat \<Rightarrow>
     PollAction list \<times> (PaymentError + PaymentResult)" where
  "poll_from terminalId replies transactionId expectedAmount maxAttempts intervalMs attempt =
     (if attempt < maxAttempts then
        (let status = getStatus (replies attempt) transactionId
         in if is_complete (ts_status status) then
              ([Sleep intervalMs, StatusQuery transactionId],
               Inr (poll_outcome status transactionId expectedAmount))
            else
              (case poll_from terminalId replies transactionId expectedAmount maxAttempts
                      intervalMs (Suc attempt) of
                 (actions, outcome) \<Rightarrow>
                   (Sleep intervalMs # StatusQuery transactionId # actions, outcome)))
      else ([], Inl (TerminalTimeoutError terminalId)))"
  by pat_completeness auto
termination
  by (relation "measure (\<lambda>(terminalId, replies, transactionId, expectedAmount, maxAttempts,
        intervalMs, attempt). maxAttempts - attempt)") auto

text \<open>
  \<open>pollTransactionStatus(transactionId, expectedAmount, maxAttempts = 60, intervalMs = 2000)\<close>:
  an omitted argument takes its default. The attempt budget is a count, so a \<open>nat\<close>.
\<close>

definition pollTransactionStatus ::
  "string \<Rightarrow> (nat \<Rightarrow> JsError + DeviceData) \<Rightarrow> string \<Rightarrow> int \<Rightarrow> nat option \<Rightarrow> int option \<Rightarrow>
     PollAction list \<times> (PaymentError + PaymentResult)" where
  "pollTransactionStatus terminalId replies transactionId expectedAmount maxAttempts intervalMs =
     poll_from terminalId replies transactionId expectedAmount
       (case maxAttempts of None \<Rightarrow> 60 | Some n \<Rightarrow> n)
       (case intervalMs of None \<Rightarrow> 2000 | Some ms \<Rightarrow> ms) 0"

text \<open>
  \<open>startPayment\<close>: post the sale, then poll. Everything thrown inside the \<open>try\<close>, the
  timeout of the polling included, reaches the \<open>catch\<close>, which throws a terminal error
  chosen by the code of an Axios error.
\<close>

record SkyTabEnv =
  st_terminalId :: string
  st_nanoid :: string
  st_post :: "JsError + DeviceData"
  st_replies :: "nat \<Rightarrow> JsError + DeviceData"

definition startPayment_catch :: "string \<Rightarrow> JsError \<Rightarrow> PaymentError" where
  "startPayment_catch terminalId error =
     (case error of
        AxiosErr ae \<Rightarrow>
          if ax_code ae = Some ''ECONNREFUSED'' \<or> ax_code ae = Some ''ETIMEDOUT'' then
            TerminalOfflineError terminalId
          else if ax_code ae = Some ''ECONNABORTED'' then TerminalTimeoutError terminalId
          else TerminalError (''SkyTab payment failed: '' @ error_text error) (Some terminalId) False
      | _ \<Rightarrow> TerminalError (''SkyTab payment failed: '' @ error_text error) (Some terminalId) False)"

definition startPayment ::
  "SkyTabEnv \<Rightarrow> int \<Rightarrow> PollAction list \<times> (PaymentError + PaymentResult)" where
  "startPayment env amount =
     (case st_post env of
        Inl error \<Rightarrow> ([], Inl (startPayment_catch (st_terminalId env) error))
      | Inr transactionData \<Rightarrow>
          (case pollTransactionStatus (st_terminalId env) (st_replies env)
                  (if truthy_str (sd_transaction_id transactionData)
                   then (case sd_transaction_id transactionData of Some t \<Rightarrow> t | None \<Rightarrow> st_nanoid env)
                   else st_nanoid env)
                  amount None None of
             (actions, Inr result) \<Rightarrow> (actions, Inr result)
           | (actions, Inl timeout) \<Rightarrow>
               (actions, Inl (startPayment_catch (st_terminalId env) (PaymentErr timeout)))))"

text \<open>\<open>k\<close> rounds of the loop: sleep for the interval, then query the status.\<close>

definition poll_rounds :: "nat \<Rightarrow> int \<Rightarrow> string \<Rightarrow> PollAction list" where
  "poll_rounds k intervalMs transactionId =
     concat (replicate k [Sleep intervalMs, StatusQuery transactionId])"

text \<open>The status that the query of attempt \<open>k\<close> observes ends the polling.\<close>

definition observes_complete :: "(nat \<Rightarrow> JsError + DeviceData) \<Rightarrow> string \<Rightarrow> nat \<Rightarrow> bool" where
  "observes_complete replies transactionId k =
     is_complete (ts_status (getStatus (replies k) transactionId))"

section \<open>The refund ledger\<close>

text \<open>
  The ledger is in order when, for every payment row, the refunds stored as SUCCEEDED for
  it do not sum to more than the payment's amount.
\<close>

definition refund_ledger_ok :: "Db \<Rightarrow> bool" where
  "refund_ledger_ok db = list_all (\<lambda>q. totalRefunded db q \<le> p_amount q) (payments db)"


section \<open>Notions used to state the webhook properties\<close>

text \<open>A receiver whose two store calls answer.\<close>

definition receiver_store_answers :: "ReceiverEnv \<Rightarrow> bool" where
  "receiver_store_answers env = (rc_findUnique_fault env = None \<and> rc_upsert_fault env = None)"

text \<open>A payload that carries an event id and an event type, as the receiver tests it.\<close>

definition carries_id_and_type :: "Payload \<Rightarrow> bool" where
  "carries_id_and_type payload =
     (truthy_str (or_str (w_id payload) (w_eventId payload)) \<and> truthy_str (w_type payload))"

text \<open>
  The same payload delivered \<open>n\<close> times in a row, each delivery run to the end of its
  processing before the next one arrives: the responses and the store at the end.
\<close>

fun redeliver ::
  "nat \<Rightarrow> ProcessingFaults \<Rightarrow> ReceiverEnv \<Rightarrow> Payload \<Rightarrow> Db \<Rightarrow> string HttpResponse list \<times> Db" where
  "redeliver 0 faults env payload db = ([], db)"
| "redeliver (Suc n) faults env payload db =
     (case deliver faults env (Inr payload) db of
        (response, db1) \<Rightarrow>
          (case redeliver n faults env payload db1 of
             (responses, db2) \<Rightarrow> (response # responses, db2)))"

text \<open>The status that the handler of a charge event writes.\<close>

definition charge_event_status :: "string \<Rightarrow> PaymentStatus option" where
  "charge_event_status eventType =
     (if eventType = ''charge.succeeded'' then Some P_CAPTURED
      else if eventType = ''charge.failed'' then Some P_FAILED
      else if eventType = ''charge.captured'' then Some P_CAPTURED
      else if eventType = ''charge.refunded'' then Some P_REFUNDED
      else None)"

section \<open>Concrete inputs\<close>

text \<open>
  An online card payment of 5000 for an order of 5000, a gateway that answers every refund
  call with a given refund id and status, and the environment of one refund request.
\<close>

definition demo_payment :: Payment where
  "demo_payment =
     \<lparr>p_id = ''pay_1'', p_orderId = ''ord_1'', p_customerId = None,
      p_shift4ChargeId = Some ''ch_1'', p_amount = 5000, p_currency = ''usd'',
      p_status = P_CAPTURED, p_methodType = CARD_ONLINE, p_idempotencyKey = ''pay_k1'',
      p_failureCode = None, p_failureMessage = None\<rparr>"

definition demo_order :: Order where
  "demo_order =
     \<lparr>o_id = ''ord_1'', o_orderNumber = ''ORD-1'', o_total = 5000, o_currency = ''usd'',
      o_status = O_PAID, o_refundedTotal = 0\<rparr>"

definition demo_db :: Db where
  "demo_db =
     \<lparr>payments = [demo_payment], refunds = [], orders = [demo_order], webhookEvents = [],
      disputes = [], payouts = []\<rparr>"

definition gateway_refund :: "string \<Rightarrow> string \<Rightarrow> RefundPayload \<Rightarrow> AxiosError + RefundData" where
  "gateway_refund rid st payload =
     Inr \<lparr>rd_id = rid, rd_chargeId = ''ch_1'',
          rd_amount = (case pl_amount payload of Some a \<Rightarrow> a | None \<Rightarrow> 0), rd_status = st\<rparr>"

definition refunds_env :: "string \<Rightarrow> string \<Rightarrow> RefundsEnv" where
  "refunds_env rid st =
     \<lparr>shift4_configured = True, post_refunds = gateway_refund rid st,
      new_refund_id = ''row_'' @ rid, refund_nanoid = ''n_'' @ rid\<rparr>"

definition refund_body :: "int option \<Rightarrow> RefundBody" where
  "refund_body a = \<lparr>b_paymentId = ''pay_1'', b_amount = a, b_reason = None\<rparr>"


text \<open>
  A device that answers the status queries with \<open>pending\<close> nine times and then with
  \<open>declined\<close>, and one that answers \<open>pending\<close> for ever.
\<close>

definition device_status :: "string \<Rightarrow> DeviceData" where
  "device_status s =
     \<lparr>sd_status = Some s, sd_transaction_id = None, sd_amount = None, sd_tip_amount = None,
      sd_total_amount = None, sd_auth_code = None, sd_response_code = None,
      sd_response_message = None\<rparr>"

definition nine_pending_then_declined :: "nat \<Rightarrow> JsError + DeviceData" where
  "nine_pending_then_declined k =
     Inr (device_status (if k < 9 then ''pending'' else ''declined''))"

definition always_pending :: "nat \<Rightarrow> JsError + DeviceData" where
  "always_pending k = Inr (device_status ''pending'')"

definition declined_result :: PaymentResult where
  "declined_result =
     \<lparr>pr_transactionId = ''tx_1'', pr_approved = False, pr_amount = Some 5000,
      pr_tipAmount = None, pr_totalAmount = Some 5000, pr_authCode = None,
      pr_responseCode = None, pr_responseMessage = None,
      pr_error = Some ''Transaction was not approved'', pr_errorCode = Some ''DECLINED''\<rparr>"

text \<open>
  A terminal whose host name does not resolve: the sale request rejects with the Axios
  error of a failed DNS lookup. A terminal that refuses the connection, and one that takes
  the sale and then reports \<open>declined\<close>.
\<close>

definition axios_failure :: "string \<Rightarrow> string \<Rightarrow> JsError" where
  "axios_failure code message =
     AxiosErr \<lparr>ax_message = message, ax_code = Some code, ax_response = None\<rparr>"

definition dns_failure_env :: SkyTabEnv where
  "dns_failure_env =
     \<lparr>st_terminalId = ''term_1'', st_nanoid = ''tx_1'',
      st_post = Inl (axios_failure ''ENOTFOUND'' ''getaddrinfo ENOTFOUND skytab.local''),
      st_replies = always_pending\<rparr>"

definition refused_env :: SkyTabEnv where
  "refused_env =
     \<lparr>st_terminalId = ''term_1'', st_nanoid = ''tx_1'',
      st_post = Inl (axios_failure ''ECONNREFUSED'' ''connect ECONNREFUSED 10.0.0.5:443''),
      st_replies = always_pending\<rparr>"

definition unreachable_while_polling_env :: SkyTabEnv where
  "unreachable_while_polling_env =
     \<lparr>st_terminalId = ''term_1'', st_nanoid = ''tx_1'',
      st_post = Inr (device_status ''pending''),
      st_replies = (\<lambda>k. Inl (axios_failure ''ECONNREFUSED'' ''connect ECONNREFUSED 10.0.0.5:443''))\<rparr>"

definition silent_env :: SkyTabEnv where
  "silent_env =
     \<lparr>st_terminalId = ''term_1'', st_nanoid = ''tx_1'',
      st_post = Inr (device_status ''pending''),
      st_replies = always_pending\<rparr>"

definition declined_env :: SkyTabEnv where
  "declined_env =
     \<lparr>st_terminalId = ''term_1'', st_nanoid = ''tx_1'',
      st_post = Inr (device_status ''pending''),
      st_replies = nine_pending_then_declined\<rparr>"

text \<open>
  A draft order of 5000 and two confirm requests for it with the same body. The gateway
  answers a charge call with a given charge id and status.
\<close>

definition draft_order :: Order where
  "draft_order =
     \<lparr>o_id = ''ord_2'', o_orderNumber = ''ORD-2'', o_total = 5000, o_currency = ''usd'',
      o_status = O_DRAFT, o_refundedTotal = 0\<rparr>"

definition draft_db :: Db where
  "draft_db =
     \<lparr>payments = [], refunds = [], orders = [draft_order], webhookEvents = [],
      disputes = [], payouts = []\<rparr>"

definition gateway_charge :: "string \<Rightarrow> string \<Rightarrow> ChargePayload \<Rightarrow> AxiosError + ChargeData" where
  "gateway_charge cid st payload =
     Inr \<lparr>cd_id = cid, cd_amount = cp_amount payload, cd_currency = cp_currency payload,
          cd_status = st, cd_captured = (st = ''successful''), cd_failureCode = None,
          cd_failureMessage = None\<rparr>"

definition confirm_env :: "string \<Rightarrow> string \<Rightarrow> ConfirmEnv" where
  "confirm_env cid st =
     \<lparr>confirm_configured = True, post_charges = gateway_charge cid st,
      new_payment_id = ''row_'' @ cid, payment_nanoid = ''n_'' @ cid\<rparr>"

definition confirm_body :: ConfirmRequest where
  "confirm_body =
     \<lparr>c_orderId = ''ord_2'', c_token = Some ''tok_1'', c_customerId = None, c_saveMethod = None\<rparr>"

definition confirm_payload :: ChargePayload where
  "confirm_payload =
     \<lparr>cp_amount = 5000, cp_currency = ''usd'', cp_captured = True,
      cp_description = ''Payment for ORD-2'', cp_card = Some ''tok_1'', cp_customerId = None,
      cp_orderId = ''ord_2'', cp_orderNumber = ''ORD-2''\<rparr>"

definition confirm_db_after :: "ConfirmEnv \<Rightarrow> Db \<Rightarrow> Db" where
  "confirm_db_after env db = fst (snd (POST_confirm env (Some confirm_body) db))"

text \<open>
  Webhook notifications about the charge \<open>ch_1\<close> of the payment above and about a refund:
  the event id, the event type, and the id of the object the event is about.
\<close>

definition object_data :: "string \<Rightarrow> EventData" where
  "object_data oid =
     \<lparr>d_id = Some oid, d_chargeId = None, d_amount = None, d_currency = None, d_reason = None,
      d_status = None, d_outcome = None, d_failureMessage = None, d_evidenceDeadline = None,
      d_arrivalDate = None, d_description = None, d_refunds = None\<rparr>"

definition notification :: "string \<Rightarrow> string \<Rightarrow> string \<Rightarrow> Payload" where
  "notification eid ety oid =
     \<lparr>w_id = Some eid, w_eventId = None, w_type = Some ety, w_data = Some (object_data oid)\<rparr>"

definition task_of :: "string \<Rightarrow> string \<Rightarrow> string \<Rightarrow> Task" where
  "task_of wid eid ety = \<lparr>t_webhookEventId = wid, t_eventId = eid, t_eventType = ety\<rparr>"

text \<open>The store after the receiver has taken a delivery, and after a processing run.\<close>

definition received :: "string \<Rightarrow> Payload \<Rightarrow> Db \<Rightarrow> Db" where
  "received new_id payload db = fst (snd (POST_webhook (receiver new_id) (Inr payload) db))"

definition processed :: "ProcessingFaults \<Rightarrow> Task \<Rightarrow> Db \<Rightarrow> Db" where
  "processed fault task db = fst (processWebhookEvent fault task db)"

definition payment_statuses :: "Db \<Rightarrow> PaymentStatus list" where
  "payment_statuses db = map p_status (payments db)"

text \<open>The payment above once it has been refunded in full.\<close>

definition refunded_db :: Db where
  "refunded_db = demo_db\<lparr>payments := [demo_payment\<lparr>p_status := P_REFUNDED\<rparr>]\<rparr>"

text \<open>
  Two deliveries of one \<open>charge.succeeded\<close> notification, the second arriving before the
  processing run of the first has started; then the first run, a \<open>charge.refunded\<close>
  notification and its run, and at last the run that the second delivery handed off.
\<close>

definition succeeded_note :: Payload where
  "succeeded_note = notification ''evt_1'' ''charge.succeeded'' ''ch_1''"

definition refunded_note :: Payload where
  "refunded_note = notification ''evt_2'' ''charge.refunded'' ''ch_1''"

definition in_flight_db :: Db where
  "in_flight_db = received ''wh_2'' succeeded_note (received ''wh_1'' succeeded_note demo_db)"

definition after_first_run :: Db where
  "after_first_run = processed no_faults (task_of ''wh_1'' ''evt_1'' ''charge.succeeded'') in_flight_db"

definition after_refund_run :: Db where
  "after_refund_run =
     processed no_faults (task_of ''wh_3'' ''evt_2'' ''charge.refunded'')
       (received ''wh_3'' refunded_note after_first_run)"

definition after_second_run :: Db where
  "after_second_run =
     processed no_faults (task_of ''wh_1'' ''evt_1'' ''charge.succeeded'') after_refund_run"






text \<open>
  A receiver whose lookup of the event fails, and a processing run in which the handler's
  database call and the update in the \<open>catch\<close> both fail.
\<close>

definition receiver_down :: "string \<Rightarrow> string \<Rightarrow> ReceiverEnv" where
  "receiver_down new_id m =
     \<lparr>rc_new_id = new_id, rc_findUnique_fault = Some m, rc_upsert_fault = None\<rparr>"

definition handler_fault :: "string \<Rightarrow> ProcessingFaults" where
  "handler_fault m = no_faults\<lparr>pf_handler := Some m\<rparr>"

definition store_down :: "string \<Rightarrow> ProcessingFaults" where
  "store_down m = no_faults\<lparr>pf_handler := Some m, pf_processingError := Some m\<rparr>"

definition failed_note :: Payload where
  "failed_note = notification ''evt_1'' ''charge.failed'' ''ch_1''"



section \<open>Properties of POST /api/v1/refunds\<close>


lemma foldl_rf_amount: "foldl (\<lambda>sum r. sum + rf_amount r) a xs = a + sum_list (map rf_amount xs)"
  by (induction xs arbitrary: a) auto

lemma totalRefunded_sum:
  "totalRefunded db payment = sum_list (map rf_amount (existingRefunds db payment))"
  by (simp add: totalRefunded_def foldl_rf_amount)

lemma errorResponse_ne_success [simp]: "errorResponse e s \<noteq> SuccessResponse s' r"
  by (cases e) (simp_all add: errorResponse_def)

lemma find_update_first:
  "(\<And>x. P x \<Longrightarrow> P (f x)) \<Longrightarrow> find P (update_first P f xs) = map_option f (find P xs)"
  by (induction xs) auto

lemma find_Some_set: "find P xs = Some x \<Longrightarrow> x \<in> set xs \<and> P x"
  by (induction xs) (auto split: if_splits)


lemma refunds_after_writes [simp]:
  "refunds (refund_create r db) = refunds db @ [r]"
  "refunds (payment_update_status pid st db) = refunds db"
  "refunds (order_update_refunded oid a ost db) = refunds db"
  by (simp_all add: refund_create_def payment_update_status_def order_update_refunded_def)

lemma payments_after_writes [simp]:
  "payments (refund_create r db) = payments db"
  "payments (payment_update_status pid st db) =
     update_first (\<lambda>p. p_id p = pid) (\<lambda>p. p\<lparr>p_status := st\<rparr>) (payments db)"
  "payments (order_update_refunded oid a ost db) = payments db"
  by (simp_all add: refund_create_def payment_update_status_def order_update_refunded_def)

lemma refundRecord_fields [simp]:
  "rf_paymentId (refundRecord env body payment rr) = p_id payment"
  "rf_amount (refundRecord env body payment rr) = refundAmount body payment"
  "rf_status (refundRecord env body payment rr) =
     (if rr_status rr = St_succeeded then R_SUCCEEDED else R_PENDING)"
  by (simp_all add: refundRecord_def)













lemma totalRefunded_status_irrelevant [simp]:
  "totalRefunded db (payment\<lparr>p_status := st\<rparr>) = totalRefunded db payment"
  by (simp add: totalRefunded_sum existingRefunds_def)


lemma orders_after_writes [simp]:
  "orders (refund_create r db) = orders db"
  "orders (payment_update_status pid st db) = orders db"
  "orders (order_update_refunded oid a ost db) =
     update_first (\<lambda>ord. o_id ord = oid)
       (\<lambda>ord. ord\<lparr>o_refundedTotal := o_refundedTotal ord + a, o_status := ost\<rparr>) (orders db)"
  by (simp_all add: refund_create_def payment_update_status_def order_update_refunded_def)

lemma refundRequest_status [simp]:
  "refundRequest body (payment\<lparr>p_status := st\<rparr>) = refundRequest body payment"
  by (simp add: refundRequest_def refundAmount_def split: option.splits)


lemma POST_refunds_phases:
  "POST_refunds env req db =
     (case refunds_read env req db of
        Inl response \<Rightarrow> (response, db, [])
      | Inr rx \<Rightarrow> refunds_write env rx db)"
  by (simp add: POST_refunds_def refunds_read_def refunds_write_def Let_def
        split: option.splits sum.splits)


section \<open>The refund scenario and the request without an amount\<close>







section \<open>Repeated confirm requests\<close>

text \<open>
  C2, at a charge that the gateway reports as pending. The order is a draft of 5000. The
  first confirm request posts a charge; the gateway creates \<open>ch_1\<close> with a status other
  than \<open>successful\<close>, so the order goes to PENDING_PAYMENT. The same request again posts
  the same charge payload a second time, the gateway creates \<open>ch_2\<close>, and the store
  holds two payment rows for the order, each under an idempotency key of its own. No key
  is looked up before the charge and none is sent with it.
\<close>

theorem confirm_twice_charges_twice:
  "snd (snd (POST_confirm (confirm_env ''ch_1'' ''pending'') (Some confirm_body) draft_db))
     = [confirm_payload] \<and>
   snd (snd (POST_confirm (confirm_env ''ch_2'' ''pending'') (Some confirm_body)
               (confirm_db_after (confirm_env ''ch_1'' ''pending'') draft_db)))
     = [confirm_payload] \<and>
   map (\<lambda>p. (p_orderId p, p_shift4ChargeId p, p_idempotencyKey p))
     (payments (confirm_db_after (confirm_env ''ch_2'' ''pending'')
                  (confirm_db_after (confirm_env ''ch_1'' ''pending'') draft_db)))
     = [(''ord_2'', Some ''ch_1'', ''pay_n_ch_1''), (''ord_2'', Some ''ch_2'', ''pay_n_ch_2'')]"
  by (simp add: confirm_db_after_def POST_confirm_def confirm_env_def confirm_body_def
        draft_db_def draft_order_def gateway_charge_def createCharge_def chargeRequest_def
        charge_payload_def truthy_str_def mapChargeStatus_def paymentRecord_def
        payment_create_def order_update_status_def successResponse_def
        generateIdempotencyKey_def confirm_payload_def Let_def)

text \<open>
  What does hold: once a charge has succeeded the order is PAID, and a repeated confirm
  request is refused before anything is posted or written.
\<close>

lemma confirm_refused_when_paid:
  assumes "find (\<lambda>ord. o_id ord = c_orderId body) (orders db) = Some order"
      and "o_status order \<noteq> O_DRAFT" and "o_status order \<noteq> O_PENDING_PAYMENT"
  shows "POST_confirm env (Some body) db =
           (ErrorResponse 400
              \<lparr>api_code = ''INTERNAL_ERROR'', api_message = ''Order cannot be paid''\<rparr>, db, [])"
  using assms by (simp add: POST_confirm_def errorResponse_def)

section \<open>The polling loop\<close>

text \<open>
  The equation of \<open>poll_from\<close> unfolds itself, so it is applied one step at a time.
\<close>

declare poll_from.simps [simp del]

lemma poll_from_complete:
  assumes "a \<le> i" "i < n" "observes_complete replies txn i"
      and "\<forall>j. a \<le> j \<and> j < i \<longrightarrow> \<not> observes_complete replies txn j"
  shows "poll_from tid replies txn amt n ms a =
           (poll_rounds (Suc i - a) ms txn, Inr (poll_outcome (getStatus (replies i) txn) txn amt))"
  using assms
proof (induction "i - a" arbitrary: a)
  case 0
  then have "a = i" by simp
  with 0 show ?case
    by (subst poll_from.simps) (simp add: observes_complete_def poll_rounds_def)
next
  case (Suc d)
  then have lt: "a < i" and na: "\<not> observes_complete replies txn a" by auto
  have IH: "poll_from tid replies txn amt n ms (Suc a) =
           (poll_rounds (Suc i - Suc a) ms txn, Inr (poll_outcome (getStatus (replies i) txn) txn amt))"
    using Suc by (intro Suc.hyps) auto
  have "Suc i - a = Suc (Suc i - Suc a)" using lt by simp
  then show ?case using lt Suc.prems(2) na IH
    by (subst poll_from.simps) (simp add: observes_complete_def poll_rounds_def)
qed

lemma poll_from_timeout:
  assumes "\<forall>j. a \<le> j \<and> j < n \<longrightarrow> \<not> observes_complete replies txn j"
  shows "poll_from tid replies txn amt n ms a =
           (poll_rounds (n - a) ms txn, Inl (TerminalTimeoutError tid))"
  using assms
proof (induction "n - a" arbitrary: a)
  case 0
  then show ?case by (subst poll_from.simps) (simp add: poll_rounds_def)
next
  case (Suc d)
  then have lt: "a < n" and na: "\<not> observes_complete replies txn a" by auto
  have IH: "poll_from tid replies txn amt n ms (Suc a) =
           (poll_rounds (n - Suc a) ms txn, Inl (TerminalTimeoutError tid))"
    using Suc by (intro Suc.hyps) auto
  have "n - a = Suc (n - Suc a)" using lt by simp
  then show ?case using lt na IH
    by (subst poll_from.simps) (simp add: observes_complete_def poll_rounds_def)
qed




text \<open>
  Nine times \<open>pending\<close> and then \<open>declined\<close> under the defaults, and a budget of three
  attempts against a device that stays \<open>pending\<close>.
\<close>

lemma nine_pending_observed:
  "observes_complete nine_pending_then_declined ''tx_1'' 9"
  "\<forall>j<9. \<not> observes_complete nine_pending_then_declined ''tx_1'' j"
  by (simp_all add: observes_complete_def nine_pending_then_declined_def getStatus_def
        device_status_def mapStatus_def is_complete_def)


lemma declined_outcome:
  "poll_outcome (getStatus (nine_pending_then_declined 9) ''tx_1'') ''tx_1'' 5000 = declined_result"
  by (simp add: poll_outcome_def getStatus_def nine_pending_then_declined_def device_status_def
        mapStatus_def status_upper_def truthy_str_def declined_result_def)


section \<open>Network failures of startPayment\<close>

text \<open>
  What the \<open>catch\<close> of \<open>startPayment\<close> does with the codes it names: a refused or
  timed-out connection is a retryable \<open>TerminalOfflineError\<close>, an aborted request a
  retryable \<open>TerminalTimeoutError\<close>.
\<close>

lemma startPayment_connection_lost:
  assumes "st_post env = Inl (AxiosErr ae)"
      and "ax_code ae = Some ''ECONNREFUSED'' \<or> ax_code ae = Some ''ETIMEDOUT''"
  shows "startPayment env amount = ([], Inl (TerminalOfflineError (st_terminalId env)))"
    and "err_retryable (TerminalOfflineError (st_terminalId env))"
  using assms
  by (auto simp: startPayment_def startPayment_catch_def TerminalOfflineError_def
        TerminalError_def mkPaymentError_def)

lemma startPayment_aborted:
  assumes "st_post env = Inl (AxiosErr ae)" and "ax_code ae = Some ''ECONNABORTED''"
  shows "startPayment env amount = ([], Inl (TerminalTimeoutError (st_terminalId env)))"
    and "err_retryable (TerminalTimeoutError (st_terminalId env))"
  using assms
  by (auto simp: startPayment_def startPayment_catch_def TerminalTimeoutError_def
        TerminalError_def mkPaymentError_def)

text \<open>A device that answers \<open>declined\<close> gives a result, not an error: nothing is thrown.\<close>

lemma startPayment_declined:
  "startPayment declined_env 5000 = (poll_rounds 10 2000 ''tx_1'', Inr declined_result)"
proof -
  have "pollTransactionStatus ''term_1'' nine_pending_then_declined ''tx_1'' 5000 None None =
     (poll_rounds 10 2000 ''tx_1'', Inr declined_result)"
    using poll_from_complete [of 0 9 60 nine_pending_then_declined "''tx_1''" "''term_1''" 5000 2000]
      nine_pending_observed
    by (simp add: pollTransactionStatus_def declined_outcome)
  then show ?thesis
    by (simp add: startPayment_def declined_env_def device_status_def truthy_str_def)
qed

text \<open>
  A network failure of a status query does not reach the \<open>catch\<close>: \<open>getStatus\<close> turns
  it into the status \<open>error\<close>, which ends the polling with a result that is not approved.
\<close>

lemma startPayment_unreachable_while_polling:
  "startPayment unreachable_while_polling_env 5000 =
     (poll_rounds 1 2000 ''tx_1'',
      Inr \<lparr>pr_transactionId = ''tx_1'', pr_approved = False, pr_amount = Some 5000,
           pr_tipAmount = None, pr_totalAmount = Some 5000, pr_authCode = None,
           pr_responseCode = None, pr_responseMessage = None,
           pr_error = Some ''connect ECONNREFUSED 10.0.0.5:443'',
           pr_errorCode = Some ''ERROR''\<rparr>)"
proof -
  have "observes_complete (st_replies unreachable_while_polling_env) ''tx_1'' 0"
    by (simp add: observes_complete_def unreachable_while_polling_env_def getStatus_def
          is_complete_def)
  then have "pollTransactionStatus ''term_1'' (st_replies unreachable_while_polling_env)
      ''tx_1'' 5000 None None =
     (poll_rounds 1 2000 ''tx_1'',
      Inr (poll_outcome (getStatus (st_replies unreachable_while_polling_env 0) ''tx_1'')
             ''tx_1'' 5000))"
    using poll_from_complete [of 0 0 60 "st_replies unreachable_while_polling_env" "''tx_1''"
        "''term_1''" 5000 2000]
    by (simp add: pollTransactionStatus_def)
  then show ?thesis
    by (simp add: startPayment_def unreachable_while_polling_env_def device_status_def
          truthy_str_def poll_outcome_def getStatus_def axios_failure_def error_text_def
          js_message_def status_upper_def)
qed

text \<open>
  The timeout of the polling is thrown inside the \<open>try\<close> of \<open>startPayment\<close>; its
  \<open>catch\<close> wraps it, so the caller of \<open>startPayment\<close> gets the generic terminal error.
\<close>

lemma startPayment_poll_timeout_wrapped:
  "startPayment silent_env 5000 =
     (poll_rounds 60 2000 ''tx_1'',
      Inl (TerminalError ''SkyTab payment failed: Terminal term_1 timed out''
             (Some ''term_1'') False))"
proof -
  have "\<forall>j. 0 \<le> j \<and> j < 60 \<longrightarrow> \<not> observes_complete always_pending ''tx_1'' j"
    by (simp add: observes_complete_def always_pending_def getStatus_def device_status_def
          mapStatus_def is_complete_def)
  then have "pollTransactionStatus ''term_1'' always_pending ''tx_1'' 5000 None None =
     (poll_rounds 60 2000 ''tx_1'', Inl (TerminalTimeoutError ''term_1''))"
    using poll_from_timeout [of 0 60 always_pending "''tx_1''" "''term_1''" 5000 2000]
    by (simp add: pollTransactionStatus_def)
  then show ?thesis
    by (simp add: startPayment_def silent_env_def device_status_def truthy_str_def
          startPayment_catch_def error_text_def js_message_def TerminalTimeoutError_def
          TerminalError_def mkPaymentError_def)
qed

text \<open>
  C8, at a failed DNS lookup. The sale request rejects with the Axios error of code
  \<open>ENOTFOUND\<close>. \<open>isRetryableError\<close> counts that error as a retryable network error, but
  the \<open>catch\<close> of \<open>startPayment\<close> has no case for the code: it throws the generic
  \<open>TerminalError\<close>, whose \<open>retryable\<close> is false, so the caller sees a failure that is
  neither "terminal offline" nor retryable.
\<close>

theorem startPayment_dns_failure_not_retryable:
  "startPayment dns_failure_env 5000 =
     ([], Inl (TerminalError ''SkyTab payment failed: getaddrinfo ENOTFOUND skytab.local''
                 (Some ''term_1'') False)) \<and>
   isRetryableError (axios_failure ''ENOTFOUND'' ''getaddrinfo ENOTFOUND skytab.local'') \<and>
   \<not> isRetryableError
       (PaymentErr (TerminalError ''SkyTab payment failed: getaddrinfo ENOTFOUND skytab.local''
                      (Some ''term_1'') False)) \<and>
   err_code (TerminalError ''SkyTab payment failed: getaddrinfo ENOTFOUND skytab.local''
               (Some ''term_1'') False) = ''TERMINAL_ERROR''"
  by (simp add: startPayment_def dns_failure_env_def axios_failure_def startPayment_catch_def
        error_text_def js_message_def isRetryableError_def network_message_def
        TerminalError_def mkPaymentError_def)

section \<open>Properties of the webhook receiver and of the processing run\<close>


lemma find_append_fresh:
  "\<forall>x \<in> set xs. \<not> P x \<Longrightarrow> P y \<Longrightarrow> find P (xs @ [y]) = Some y"
  by (induction xs) auto

lemma find_by_id_after_update:
  assumes "distinct (map we_id xs)" and "find P xs = Some x" and "\<And>e. we_id (f e) = we_id e"
  shows "find (\<lambda>e. we_id e = we_id x) (update_first P f xs) = Some (f x)"
  using assms
proof (induction xs)
  case Nil
  then show ?case by simp
next
  case (Cons a xs)
  show ?case
  proof (cases "P a")
    case True
    with Cons.prems show ?thesis by simp
  next
    case False
    with Cons.prems have f: "find P xs = Some x" and d: "distinct (map we_id xs)"
      and na: "we_id a \<notin> set (map we_id xs)" by auto
    have "x \<in> set xs" using find_Some_set [OF f] by simp
    then have "we_id a \<noteq> we_id x" using na by auto
    with False Cons.IH [OF d f Cons.prems(3)] show ?thesis by simp
  qed
qed

lemma webhookEvent_upsert_row:
  assumes "distinct (map we_id (webhookEvents db))"
      and "new_id \<notin> set (map we_id (webhookEvents db))"
      and "webhookEvent_upsert new_id eid ety payload db = (ev, db1)"
  shows "find (\<lambda>e. we_id e = we_id ev) (webhookEvents db1) = Some ev"
    and "we_eventId ev = eid"
    and "payments db1 = payments db" "refunds db1 = refunds db"
    and "we_processed ev = (case find (\<lambda>e. we_eventId e = eid) (webhookEvents db) of
            None \<Rightarrow> False | Some existing \<Rightarrow> we_processed existing)"
proof -
  show "find (\<lambda>e. we_id e = we_id ev) (webhookEvents db1) = Some ev"
  proof (cases "find (\<lambda>e. we_eventId e = eid) (webhookEvents db)")
    case None
    with assms(3) have ev: "we_id ev = new_id" and db1: "webhookEvents db1 = webhookEvents db @ [ev]"
      by (auto simp: webhookEvent_upsert_def Let_def)
    have "\<forall>x \<in> set (webhookEvents db). \<not> we_id x = new_id" using assms(2) by auto
    then show ?thesis unfolding db1 ev using ev by (intro find_append_fresh) auto
  next
    case (Some existing)
    with assms(3) have ev: "ev = existing\<lparr>we_retryCount := we_retryCount existing + 1\<rparr>"
      and db1: "webhookEvents db1 = update_first (\<lambda>e. we_eventId e = eid)
                  (\<lambda>e. e\<lparr>we_retryCount := we_retryCount e + 1\<rparr>) (webhookEvents db)"
      by (auto simp: webhookEvent_upsert_def)
    have "find (\<lambda>e. we_id e = we_id existing) (webhookEvents db1) =
            Some (existing\<lparr>we_retryCount := we_retryCount existing + 1\<rparr>)"
      unfolding db1 by (rule find_by_id_after_update [OF assms(1) Some]) simp
    then show ?thesis using ev by simp
  qed
  show "we_eventId ev = eid"
    using assms(3) find_Some_set [of "\<lambda>e. we_eventId e = eid" "webhookEvents db"]
    by (auto simp: webhookEvent_upsert_def Let_def split: option.splits)
  show "payments db1 = payments db" "refunds db1 = refunds db"
    using assms(3) by (auto simp: webhookEvent_upsert_def Let_def split: option.splits)
  show "we_processed ev = (case find (\<lambda>e. we_eventId e = eid) (webhookEvents db) of
            None \<Rightarrow> False | Some existing \<Rightarrow> we_processed existing)"
    using assms(3) by (auto simp: webhookEvent_upsert_def Let_def split: option.splits)
qed

lemma POST_webhook_ack:
  assumes "carries_id_and_type payload" and "receiver_store_answers env"
  shows "fst (POST_webhook env (Inr payload) db) = SuccessResponse 200 ''OK''"
  using assms
  by (auto simp: carries_id_and_type_def receiver_store_answers_def POST_webhook_def enqueue_def
        truthy_str_def Let_def split: option.splits prod.splits)

lemma POST_webhook_store_fault:
  assumes "carries_id_and_type payload"
      and "rc_findUnique_fault env = Some m"
  shows "POST_webhook env (Inr payload) db = (errorResponse (PlainErr m) 500, db, None)"
  using assms
  by (auto simp: carries_id_and_type_def POST_webhook_def truthy_str_def Let_def
        split: option.splits)

lemma POST_webhook_task:
  assumes d: "distinct (map we_id (webhookEvents db))"
      and n: "rc_new_id env \<notin> set (map we_id (webhookEvents db))"
      and p: "POST_webhook env req db = (resp, db1, Some task)"
  shows "\<exists>ev. find (\<lambda>e. we_id e = t_webhookEventId task) (webhookEvents db1) = Some ev \<and>
              \<not> we_processed ev \<and> we_eventId ev = t_eventId task"
    and "resp = SuccessResponse 200 ''OK''"
    and "payments db1 = payments db" "refunds db1 = refunds db"
proof -
  from p obtain payload eid ety ev where
    u: "webhookEvent_upsert (rc_new_id env) eid ety payload db = (ev, db1)"
    and t: "task = \<lparr>t_webhookEventId = we_id ev, t_eventId = eid, t_eventType = ety\<rparr>"
    and r: "resp = SuccessResponse 200 ''OK''"
    and np: "(case find (\<lambda>e. we_eventId e = eid) (webhookEvents db) of
            None \<Rightarrow> False | Some existing \<Rightarrow> we_processed existing) = False"
    by (auto simp: POST_webhook_def enqueue_def Let_def errorResponse_def
          split: sum.splits option.splits prod.splits if_splits)
  note row = webhookEvent_upsert_row [OF d n u]
  show "\<exists>ev. find (\<lambda>e. we_id e = t_webhookEventId task) (webhookEvents db1) = Some ev \<and>
              \<not> we_processed ev \<and> we_eventId ev = t_eventId task"
    using row(1,2,5) np t by auto
  show "resp = SuccessResponse 200 ''OK''" by (rule r)
  show "payments db1 = payments db" "refunds db1 = refunds db" using row(3,4) by auto
qed


lemma handlers_keep_events [simp]:
  "webhookEvents (payment_updateMany_status c st db) = webhookEvents db"
  "webhookEvents (refund_updateMany r rs fm db) = webhookEvents db"
  "webhookEvents (handleDisputeCreated data db) = webhookEvents db"
  "webhookEvents (handleDisputeClosed data db) = webhookEvents db"
  by (simp_all add: payment_updateMany_status_def refund_updateMany_def handleDisputeCreated_def
        handleDisputeClosed_def split: option.splits)

lemma handlePayout_keeps_events:
  "handlePayout data db = Inr db1 \<Longrightarrow> webhookEvents db1 = webhookEvents db"
  by (auto simp: handlePayout_def Let_def split: option.splits)

lemma dispatch_keeps_events:
  "dispatch fault ty data db = Inr db1 \<Longrightarrow> webhookEvents db1 = webhookEvents db"
  by (auto simp: dispatch_def handleChargeSucceeded_def handleChargeFailed_def
        handleChargeCaptured_def handleChargeRefunded_def handleRefundSucceeded_def
        handleRefundFailed_def Let_def handlePayout_keeps_events
        split: option.splits if_splits)

lemma find_we_id_update:
  assumes "find (\<lambda>e. we_id e = wid) xs = Some ev" and "\<And>e. we_id (f e) = we_id e"
  shows "find (\<lambda>e. we_id e = wid) (update_first (\<lambda>e. we_id e = wid) f xs) = Some (f ev)"
  using assms find_update_first [of "\<lambda>e. we_id e = wid" f xs] by simp

lemma processing_failed_row:
  assumes "find (\<lambda>e. we_id e = wid) (webhookEvents db) = Some ev"
      and "pf_processingError faults = None"
  shows "processing_failed faults wid error db =
           (db\<lparr>webhookEvents := update_first (\<lambda>e. we_id e = wid)
                 (\<lambda>e. e\<lparr>we_processingError := Some (error_text error)\<rparr>) (webhookEvents db)\<rparr>,
            Some error)"
  using assms by (simp add: processing_failed_def webhookEvent_update_def)

lemma processing_failed_rejects: "\<exists>db' e. processing_failed faults wid error db = (db', Some e)"
  by (simp add: processing_failed_def split: sum.splits)

lemma processWebhookEvent_resolves:
  assumes "find (\<lambda>e. we_id e = t_webhookEventId task) (webhookEvents db) = Some ev"
      and "dispatch (pf_handler faults) (t_eventType task) (we_payload ev) db = Inr db1"
      and "pf_findUnique faults = None" "pf_processed faults = None"
  shows "processWebhookEvent faults task db =
           (db1\<lparr>webhookEvents := update_first (\<lambda>e. we_id e = t_webhookEventId task)
                 (\<lambda>e. e\<lparr>we_processed := True\<rparr>) (webhookEvents db)\<rparr>, None)"
  using assms dispatch_keeps_events [OF assms(2)]
  by (simp add: processWebhookEvent_def webhookEvent_update_def)

text \<open>
  A run either resolves or goes through the \<open>catch\<close> block, on a store with the event
  rows it started with.
\<close>

lemma processWebhookEvent_cases:
  "(\<exists>db2. processWebhookEvent faults task db = (db2, None)) \<or>
   (\<exists>error dbx. webhookEvents dbx = webhookEvents db \<and>
      processWebhookEvent faults task db =
        processing_failed faults (t_webhookEventId task) error dbx)"
proof (cases "pf_findUnique faults")
  case (Some m)
  then show ?thesis by (auto simp: processWebhookEvent_def)
next
  case None
  note nf = None
  show ?thesis
  proof (cases "find (\<lambda>e. we_id e = t_webhookEventId task) (webhookEvents db)")
    case None
    with nf show ?thesis by (auto simp: processWebhookEvent_def)
  next
    case (Some ev)
    note row = Some
    show ?thesis
    proof (cases "dispatch (pf_handler faults) (t_eventType task) (we_payload ev) db")
      case (Inl error)
      with nf row show ?thesis by (auto simp: processWebhookEvent_def)
    next
      case (Inr db1)
      note ev = dispatch_keeps_events [OF Inr]
      show ?thesis
      proof (cases "webhookEvent_update (pf_processed faults) (t_webhookEventId task)
                      (\<lambda>e. e\<lparr>we_processed := True\<rparr>) db1")
        case (Inl error)
        with nf row Inr have "processWebhookEvent faults task db =
            processing_failed faults (t_webhookEventId task) error db1"
          by (simp add: processWebhookEvent_def)
        with ev show ?thesis by blast
      next
        case (Inr db2)
        with nf row \<open>dispatch (pf_handler faults) (t_eventType task) (we_payload ev) db = Inr db1\<close>
        have "processWebhookEvent faults task db = (db2, None)"
          by (simp add: processWebhookEvent_def)
        then show ?thesis by blast
      qed
    qed
  qed
qed

lemma processWebhookEvent_rejects:
  assumes row: "find (\<lambda>e. we_id e = t_webhookEventId task) (webhookEvents db) = Some ev"
      and run: "processWebhookEvent faults task db = (db', Some error)"
      and rec: "pf_processingError faults = None"
  shows "find (\<lambda>e. we_id e = t_webhookEventId task) (webhookEvents db') =
           Some (ev\<lparr>we_processingError := Some (error_text error)\<rparr>)"
proof -
  from processWebhookEvent_cases [of faults task db] run obtain e dbx where
    evs: "webhookEvents dbx = webhookEvents db" and
    pf: "processing_failed faults (t_webhookEventId task) e dbx = (db', Some error)"
    by auto
  from row evs have row': "find (\<lambda>e. we_id e = t_webhookEventId task) (webhookEvents dbx) = Some ev"
    by simp
  from pf processing_failed_row [OF row' rec, of e] have
    e: "e = error" and
    u: "db' = dbx\<lparr>webhookEvents := update_first (\<lambda>e. we_id e = t_webhookEventId task)
                 (\<lambda>e. e\<lparr>we_processingError := Some (error_text error)\<rparr>) (webhookEvents dbx)\<rparr>"
    by auto
  show ?thesis
    unfolding u
    using find_we_id_update [OF row', of "\<lambda>e. e\<lparr>we_processingError := Some (error_text error)\<rparr>"]
    by simp
qed

lemma deliver_response: "fst (deliver faults env req db) = fst (POST_webhook env req db)"
  by (simp add: deliver_def split: prod.splits option.splits)

lemma no_faults_simps [simp]:
  "pf_findUnique no_faults = None" "pf_handler no_faults = None"
  "pf_processed no_faults = None" "pf_processingError no_faults = None"
  by (simp_all add: no_faults_def)

lemma receiver_simps [simp]:
  "rc_new_id (receiver new_id) = new_id" "rc_findUnique_fault (receiver new_id) = None"
  "rc_upsert_fault (receiver new_id) = None" "receiver_store_answers (receiver new_id)"
  by (simp_all add: receiver_def receiver_store_answers_def)

section \<open>Acknowledgement and processing failures\<close>

text \<open>
  C6, as the receiver implements it. A delivery whose payload carries an event id and an
  event type is answered 200 OK provided the receiver's own store calls
  (\<open>webhookEvent.findUnique\<close> and \<open>webhookEvent.upsert\<close>) answer. The receiver computes
  that response without running the processing: the call is handed off as a task, and the
  response is the same whatever the processing run does later and whichever of its
  database calls fail. When the run of the task fails and the update in its \<open>catch\<close>
  block answers, the event row holds the error's message in \<open>processingError\<close> and its
  \<open>processed\<close> flag is still false. Event rows have distinct ids and the id of a new row
  is fresh.
\<close>

theorem webhook_ack_independent_of_processing:
  assumes carries: "carries_id_and_type payload"
      and ids: "distinct (map we_id (webhookEvents db))"
               "rc_new_id env \<notin> set (map we_id (webhookEvents db))"
      and store: "receiver_store_answers env"
  shows "fst (POST_webhook env (Inr payload) db) = SuccessResponse 200 ''OK'' \<and>
         (\<forall>faults. fst (deliver faults env (Inr payload) db) = SuccessResponse 200 ''OK'') \<and>
         (\<forall>faults db1 task db2 error.
            snd (POST_webhook env (Inr payload) db) = (db1, Some task) \<and>
            processWebhookEvent faults task db1 = (db2, Some error) \<and>
            pf_processingError faults = None \<longrightarrow>
            (\<exists>ev. find (\<lambda>e. we_id e = t_webhookEventId task) (webhookEvents db2) = Some ev \<and>
                  we_eventId ev = t_eventId task \<and>
                  we_processingError ev = Some (error_text error) \<and>
                  \<not> we_processed ev))"
proof -
  have ack: "fst (POST_webhook env (Inr payload) db) = SuccessResponse 200 ''OK''"
    by (rule POST_webhook_ack [OF carries store])
  have failure: "\<exists>ev. find (\<lambda>e. we_id e = t_webhookEventId task) (webhookEvents db2) = Some ev \<and>
                  we_eventId ev = t_eventId task \<and>
                  we_processingError ev = Some (error_text error) \<and> \<not> we_processed ev"
    if p: "snd (POST_webhook env (Inr payload) db) = (db1, Some task)"
      and run: "processWebhookEvent faults task db1 = (db2, Some error)"
      and rec: "pf_processingError faults = None"
    for faults db1 task db2 error
  proof -
    from p have "POST_webhook env (Inr payload) db =
        (fst (POST_webhook env (Inr payload) db), db1, Some task)"
      by (metis prod.collapse)
    from POST_webhook_task(1) [OF ids this] obtain ev where
      row: "find (\<lambda>e. we_id e = t_webhookEventId task) (webhookEvents db1) = Some ev"
      and np: "\<not> we_processed ev" and eid: "we_eventId ev = t_eventId task"
      by blast
    from processWebhookEvent_rejects [OF row run rec] np eid show ?thesis by simp
  qed
  from ack failure show ?thesis by (simp only: deliver_response) blast
qed

text \<open>
  A \<open>charge.failed\<close> notification whose handler loses the database connection: the
  delivery is still answered 200, and the event row records the message, unprocessed.
\<close>

theorem webhook_ack_independent_of_processing_witness:
  "fst (deliver (handler_fault ''Connection lost'') (receiver ''wh_1'') (Inr failed_note) demo_db)
     = SuccessResponse 200 ''OK'' \<and>
   (\<exists>ev. find (\<lambda>e. we_id e = ''wh_1'')
           (webhookEvents
              (processed (handler_fault ''Connection lost'')
                 (task_of ''wh_1'' ''evt_1'' ''charge.failed'')
                 (received ''wh_1'' failed_note demo_db)))
           = Some ev \<and>
         we_eventId ev = ''evt_1'' \<and> we_processingError ev = Some ''Connection lost'' \<and>
         \<not> we_processed ev)"
proof -
  let ?f = "handler_fault ''Connection lost''"
  let ?t = "task_of ''wh_1'' ''evt_1'' ''charge.failed''"
  let ?db1 = "received ''wh_1'' failed_note demo_db"
  have carries: "carries_id_and_type failed_note"
    by (simp add: failed_note_def carries_id_and_type_def notification_def or_str_def
          truthy_str_def)
  have ids: "distinct (map we_id (webhookEvents demo_db))"
    "rc_new_id (receiver ''wh_1'') \<notin> set (map we_id (webhookEvents demo_db))"
    by (simp_all add: demo_db_def)
  have store: "receiver_store_answers (receiver ''wh_1'')" by simp
  have post: "snd (POST_webhook (receiver ''wh_1'') (Inr failed_note) demo_db) = (?db1, Some ?t)"
    by (simp add: failed_note_def received_def POST_webhook_def enqueue_def receiver_def
          notification_def or_str_def truthy_str_def demo_db_def webhookEvent_upsert_def
          task_of_def Let_def)
  have run: "processWebhookEvent ?f ?t ?db1 =
      (processed ?f ?t ?db1, Some (PlainErr ''Connection lost''))"
    by (simp add: failed_note_def handler_fault_def no_faults_def processed_def received_def
          POST_webhook_def enqueue_def receiver_def notification_def or_str_def
          truthy_str_def demo_db_def webhookEvent_upsert_def task_of_def Let_def
          processWebhookEvent_def dispatch_def processing_failed_def webhookEvent_update_def)
  have rec: "pf_processingError ?f = None" by (simp add: handler_fault_def no_faults_def)
  have msg: "error_text (PlainErr ''Connection lost'') = ''Connection lost''"
    by (simp add: error_text_def js_message_def)
  note ack = webhook_ack_independent_of_processing [OF carries ids store]
  from ack have response: "fst (deliver ?f (receiver ''wh_1'') (Inr failed_note) demo_db)
      = SuccessResponse 200 ''OK''"
    by blast
  from ack post run rec have
    "\<exists>ev. find (\<lambda>e. we_id e = t_webhookEventId ?t) (webhookEvents (processed ?f ?t ?db1)) = Some ev \<and>
          we_eventId ev = t_eventId ?t \<and>
          we_processingError ev = Some (error_text (PlainErr ''Connection lost'')) \<and>
          \<not> we_processed ev"
    by blast
  with response msg show ?thesis by (simp add: task_of_def)
qed

text \<open>
  The claim as stated fails in both halves. The lookup of the event is awaited inside the
  receiver's \<open>try\<close>: when it rejects, a delivery that carries an event id and a type is
  answered 500, nothing is stored and no processing is handed off. And when the handler's
  database call fails and the update in the \<open>catch\<close> of the processing run fails as well,
  the run rejects and the event row records no error.
\<close>

theorem webhook_store_failure_answered_500:
  "carries_id_and_type failed_note \<and>
   http_status (fst (POST_webhook (receiver_down ''wh_1'' ''Connection lost'') (Inr failed_note)
                       demo_db)) = 500 \<and>
   snd (POST_webhook (receiver_down ''wh_1'' ''Connection lost'') (Inr failed_note) demo_db)
     = (demo_db, None) \<and>
   processWebhookEvent (store_down ''Connection lost'')
       (task_of ''wh_1'' ''evt_1'' ''charge.failed'') (received ''wh_1'' failed_note demo_db)
     = (received ''wh_1'' failed_note demo_db, Some (PlainErr ''Connection lost'')) \<and>
   map we_processingError (webhookEvents (received ''wh_1'' failed_note demo_db)) = [None]"
  by (simp add: failed_note_def carries_id_and_type_def receiver_down_def store_down_def
        received_def POST_webhook_def enqueue_def receiver_def no_faults_def
        webhookEvent_upsert_def processWebhookEvent_def dispatch_def processing_failed_def
        webhookEvent_update_def notification_def task_of_def or_str_def truthy_str_def
        demo_db_def errorResponse_def Let_def)

section \<open>Redelivery of a notification\<close>

lemma POST_webhook_processed:
  assumes "or_str (w_id payload) (w_eventId payload) = Some eid" "eid \<noteq> []"
      and "w_type payload = Some ety" "ety \<noteq> []"
      and "receiver_store_answers env"
      and "find (\<lambda>e. we_eventId e = eid) (webhookEvents db) = Some ev" "we_processed ev"
  shows "POST_webhook env (Inr payload) db = (SuccessResponse 200 ''OK'', db, None)"
  using assms by (simp add: POST_webhook_def receiver_store_answers_def Let_def)

lemma POST_webhook_unprocessed:
  assumes "or_str (w_id payload) (w_eventId payload) = Some eid" "eid \<noteq> []"
      and "w_type payload = Some ety" "ety \<noteq> []"
      and "receiver_store_answers env"
      and "find (\<lambda>e. we_eventId e = eid) (webhookEvents db) = Some ev" "\<not> we_processed ev"
  shows "POST_webhook env (Inr payload) db =
           (SuccessResponse 200 ''OK'',
            db\<lparr>webhookEvents :=
                 update_first (\<lambda>e. we_eventId e = eid)
                   (\<lambda>e. e\<lparr>we_retryCount := we_retryCount e + 1\<rparr>) (webhookEvents db)\<rparr>,
            Some \<lparr>t_webhookEventId = we_id ev, t_eventId = eid, t_eventType = ety\<rparr>)"
  using assms
  by (simp add: POST_webhook_def enqueue_def receiver_store_answers_def webhookEvent_upsert_def
        Let_def)

lemma POST_webhook_new:
  assumes "or_str (w_id payload) (w_eventId payload) = Some eid" "eid \<noteq> []"
      and "w_type payload = Some ety" "ety \<noteq> []"
      and "receiver_store_answers env"
      and "find (\<lambda>e. we_eventId e = eid) (webhookEvents db) = None"
  shows "POST_webhook env (Inr payload) db =
           (SuccessResponse 200 ''OK'',
            db\<lparr>webhookEvents := webhookEvents db @
                 [\<lparr>we_id = rc_new_id env, we_eventId = eid, we_eventType = ety,
                   we_payload = payload, we_processed = False, we_processingError = None,
                   we_retryCount = 0\<rparr>]\<rparr>,
            Some \<lparr>t_webhookEventId = rc_new_id env, t_eventId = eid, t_eventType = ety\<rparr>)"
  using assms
  by (simp add: POST_webhook_def enqueue_def receiver_store_answers_def webhookEvent_upsert_def
        Let_def)

lemma redeliver_acks:
  assumes "carries_id_and_type payload" and "receiver_store_answers env"
  shows "map http_status (fst (redeliver n faults env payload db)) = replicate n 200"
proof (induction n arbitrary: db)
  case 0
  show ?case by simp
next
  case (Suc n)
  have "http_status (fst (deliver faults env (Inr payload) db)) = 200"
    by (simp add: deliver_response POST_webhook_ack [OF assms])
  with Suc show ?case by (simp split: prod.splits) (metis fst_conv)
qed

lemma redeliver_processed:
  assumes "POST_webhook env (Inr payload) db = (SuccessResponse 200 ''OK'', db, None)"
  shows "redeliver n faults env payload db = (replicate n (SuccessResponse 200 ''OK''), db)"
  using assms by (induction n) (simp_all add: deliver_def)

text \<open>
  C3, as the receiver implements it. While the receiver's own store calls answer, every
  delivery of a payload that carries an event id and a type is answered 200, so \<open>n\<close>
  deliveries give \<open>n\<close> acknowledgements, whatever the processing runs do. Once the event
  is stored as processed, a delivery changes nothing and hands off no processing, however
  often it is repeated. While the event is stored but not processed, a delivery increments
  the event's \<open>retryCount\<close> and hands off another processing run of the event.
\<close>

theorem redelivery_of_stored_event:
  assumes "or_str (w_id payload) (w_eventId payload) = Some eid" "eid \<noteq> []"
      and "w_type payload = Some ety" "ety \<noteq> []"
      and "receiver_store_answers env"
  shows "map http_status (fst (redeliver n faults env payload db)) = replicate n 200 \<and>
         (\<forall>ev. find (\<lambda>e. we_eventId e = eid) (webhookEvents db) = Some ev \<and> we_processed ev \<longrightarrow>
            redeliver n faults env payload db = (replicate n (SuccessResponse 200 ''OK''), db)) \<and>
         (\<forall>ev. find (\<lambda>e. we_eventId e = eid) (webhookEvents db) = Some ev \<and> \<not> we_processed ev \<longrightarrow>
            POST_webhook env (Inr payload) db =
              (SuccessResponse 200 ''OK'',
               db\<lparr>webhookEvents :=
                    update_first (\<lambda>e. we_eventId e = eid)
                      (\<lambda>e. e\<lparr>we_retryCount := we_retryCount e + 1\<rparr>) (webhookEvents db)\<rparr>,
               Some \<lparr>t_webhookEventId = we_id ev, t_eventId = eid, t_eventType = ety\<rparr>))"
proof -
  have c: "carries_id_and_type payload"
    using assms by (simp add: carries_id_and_type_def truthy_str_def)
  show ?thesis
    using redeliver_acks [OF c assms(5)] redeliver_processed [OF POST_webhook_processed [OF assms]]
      POST_webhook_unprocessed [OF assms]
    by blast
qed


text \<open>Evaluation of the receiver and of the processing run on the concrete inputs.\<close>

lemmas webhook_eval =
  received_def processed_def deliver_def POST_webhook_def enqueue_def receiver_def
  no_faults_def webhookEvent_upsert_def
  processWebhookEvent_def dispatch_def processing_failed_def webhookEvent_update_def
  notification_def object_data_def task_of_def or_str_def truthy_str_def object_id_def
  data_field_def where_eq_def payment_updateMany_status_def refund_updateMany_def
  handleChargeSucceeded_def handleChargeFailed_def handleChargeCaptured_def
  handleChargeRefunded_def handleRefundSucceeded_def first_refund_id_def
  payment_statuses_def demo_db_def demo_payment_def demo_order_def Let_def

text \<open>Three more deliveries of a notification that has been processed.\<close>

theorem redelivery_of_stored_event_witness:
  "redeliver 3 no_faults (receiver ''wh_9'') succeeded_note
     (snd (deliver no_faults (receiver ''wh_1'') (Inr succeeded_note) demo_db)) =
   (replicate 3 (SuccessResponse 200 ''OK''),
    snd (deliver no_faults (receiver ''wh_1'') (Inr succeeded_note) demo_db))"
proof -
  have a: "or_str (w_id succeeded_note) (w_eventId succeeded_note) = Some ''evt_1''" "''evt_1'' \<noteq> []"
    "w_type succeeded_note = Some ''charge.succeeded''" "''charge.succeeded'' \<noteq> []"
    "receiver_store_answers (receiver ''wh_9'')"
    by (simp_all add: succeeded_note_def notification_def or_str_def truthy_str_def)
  have "\<exists>ev. find (\<lambda>e. we_eventId e = ''evt_1'')
          (webhookEvents (snd (deliver no_faults (receiver ''wh_1'') (Inr succeeded_note) demo_db)))
            = Some ev \<and>
        we_processed ev"
    by (simp add: succeeded_note_def webhook_eval)
  with redelivery_of_stored_event [OF a, of 3 no_faults
      "snd (deliver no_faults (receiver ''wh_1'') (Inr succeeded_note) demo_db)"]
  show ?thesis by blast
qed

text \<open>
  The claim as stated fails when a redelivery arrives while the event is stored but not yet
  processed: the second delivery of \<open>evt_1\<close> hands off a second run of the same event.
  The first run sets the payment to CAPTURED, the refund notification then sets it to
  REFUNDED, and the second run of \<open>evt_1\<close> applies its effect again: CAPTURED.
\<close>

theorem redelivery_in_flight_reprocessed:
  "snd (snd (POST_webhook (receiver ''wh_2'') (Inr succeeded_note) (received ''wh_1'' succeeded_note demo_db)))
     = Some (task_of ''wh_1'' ''evt_1'' ''charge.succeeded'') \<and>
   payment_statuses after_first_run = [P_CAPTURED] \<and>
   payment_statuses after_refund_run = [P_REFUNDED] \<and>
   payment_statuses after_second_run = [P_CAPTURED]"
  by (simp add: after_second_run_def after_refund_run_def after_first_run_def in_flight_db_def
        succeeded_note_def refunded_note_def webhook_eval)

section \<open>Status transitions from webhook events\<close>

text \<open>
  The payment row has no revision, the handlers take nothing but the event's payload, and
  errors.ts declares no conflict error. A transition is the processing of a charge event:
  the handler writes the event's status to every payment with the event's charge id.
\<close>

lemma charge_event_dispatch:
  assumes "charge_event_status ty = Some st"
  shows "\<exists>db1. dispatch None ty data db = Inr db1 \<and>
           payments db1 = map (\<lambda>p. if where_eq (object_id data) (p_shift4ChargeId p)
                                     then p\<lparr>p_status := st\<rparr> else p) (payments db)"
  using assms
  by (auto simp: charge_event_status_def dispatch_def handleChargeSucceeded_def
        handleChargeFailed_def handleChargeCaptured_def handleChargeRefunded_def
        payment_updateMany_status_def refund_updateMany_def Let_def split: if_splits)

text \<open>
  C4, as the code has it. A transition carries no expected revision and cannot fail on one:
  for an event of type \<open>charge.succeeded\<close>, \<open>charge.failed\<close>, \<open>charge.captured\<close> or
  \<open>charge.refunded\<close> whose row is in the store, the processing run (no database call
  failing) resolves without an error, writes the event's status to every payment that
  matches the charge id, whatever its status was, and marks the event processed.
\<close>

theorem charge_events_apply_unconditionally:
  assumes row: "find (\<lambda>e. we_id e = t_webhookEventId task) (webhookEvents db) = Some ev"
      and ty: "charge_event_status (t_eventType task) = Some st"
  shows "\<exists>db'. processWebhookEvent no_faults task db = (db', None) \<and>
           payments db' =
             map (\<lambda>p. if where_eq (object_id (we_payload ev)) (p_shift4ChargeId p)
                       then p\<lparr>p_status := st\<rparr> else p) (payments db) \<and>
           find (\<lambda>e. we_id e = t_webhookEventId task) (webhookEvents db') =
             Some (ev\<lparr>we_processed := True\<rparr>)"
proof -
  from charge_event_dispatch [OF ty, of "we_payload ev" db] obtain db1 where
    d: "dispatch (pf_handler no_faults) (t_eventType task) (we_payload ev) db = Inr db1" and
    p: "payments db1 = map (\<lambda>p. if where_eq (object_id (we_payload ev)) (p_shift4ChargeId p)
                                     then p\<lparr>p_status := st\<rparr> else p) (payments db)"
    by auto
  note r = processWebhookEvent_resolves [OF row d no_faults_simps(1) no_faults_simps(3)]
  have "find (\<lambda>e. we_id e = t_webhookEventId task)
          (update_first (\<lambda>e. we_id e = t_webhookEventId task) (\<lambda>e. e\<lparr>we_processed := True\<rparr>)
             (webhookEvents db)) = Some (ev\<lparr>we_processed := True\<rparr>)"
    by (rule find_we_id_update [OF row]) simp
  with r p show ?thesis by simp
qed


text \<open>A \<open>charge.captured\<close> notification for the payment above.\<close>

theorem charge_events_apply_unconditionally_witness:
  "(\<exists>db'. processWebhookEvent no_faults (task_of ''wh_1'' ''evt_5'' ''charge.captured'')
            (received ''wh_1'' (notification ''evt_5'' ''charge.captured'' ''ch_1'') demo_db)
          = (db', None) \<and>
         payment_statuses db' = [P_CAPTURED] \<and>
         map_option we_processed (find (\<lambda>e. we_id e = ''wh_1'') (webhookEvents db')) = Some True)"
proof -
  let ?n = "notification ''evt_5'' ''charge.captured'' ''ch_1''"
  let ?t = "task_of ''wh_1'' ''evt_5'' ''charge.captured''"
  let ?db = "received ''wh_1'' ?n demo_db"
  let ?ev = "\<lparr>we_id = ''wh_1'', we_eventId = ''evt_5'', we_eventType = ''charge.captured'',
              we_payload = ?n, we_processed = False, we_processingError = None,
              we_retryCount = 0\<rparr>"
  have row: "find (\<lambda>e. we_id e = t_webhookEventId ?t) (webhookEvents ?db) = Some ?ev"
    by (simp add: webhook_eval)
  have ty: "charge_event_status (t_eventType ?t) = Some P_CAPTURED"
    by (simp add: charge_event_status_def task_of_def)
  have pays: "payments ?db = [demo_payment]"
    by (simp add: webhook_eval)
  from charge_events_apply_unconditionally [OF row ty] obtain db' where
    "processWebhookEvent no_faults ?t ?db = (db', None)"
    "payments db' =
       map (\<lambda>p. if where_eq (object_id (we_payload ?ev)) (p_shift4ChargeId p)
                 then p\<lparr>p_status := P_CAPTURED\<rparr> else p) (payments ?db)"
    "find (\<lambda>e. we_id e = t_webhookEventId ?t) (webhookEvents db') = Some (?ev\<lparr>we_processed := True\<rparr>)"
    by blast
  then have "processWebhookEvent no_faults ?t ?db = (db', None) \<and>
         payment_statuses db' = [P_CAPTURED] \<and>
         map_option we_processed (find (\<lambda>e. we_id e = ''wh_1'') (webhookEvents db')) = Some True"
    using pays by (simp add: payment_statuses_def task_of_def demo_payment_def)
  then show ?thesis by blast
qed

text \<open>
  The claim as stated fails: no transition is refused as stale. The payment has been
  refunded in full; the notification that its charge succeeded, issued before the refund,
  arrives afterwards. Its processing run resolves with no error and changes the state:
  the payment is CAPTURED again.
\<close>

theorem stale_transition_applied_without_conflict:
  "payment_statuses refunded_db = [P_REFUNDED] \<and>
   processWebhookEvent no_faults (task_of ''wh_1'' ''evt_1'' ''charge.succeeded'')
       (received ''wh_1'' succeeded_note refunded_db)
     = (processed no_faults (task_of ''wh_1'' ''evt_1'' ''charge.succeeded'')
          (received ''wh_1'' succeeded_note refunded_db), None) \<and>
   payment_statuses
     (processed no_faults (task_of ''wh_1'' ''evt_1'' ''charge.succeeded'')
        (received ''wh_1'' succeeded_note refunded_db)) = [P_CAPTURED]"
  by (simp add: refunded_db_def succeeded_note_def webhook_eval)

section \<open>A late charge.failed notification\<close>

lemma deliver_new_event:
  assumes id: "or_str (w_id payload) (w_eventId payload) = Some eid" "eid \<noteq> []"
      and ty: "w_type payload = Some ety" "ety \<noteq> []"
      and new: "find (\<lambda>e. we_eventId e = eid) (webhookEvents db) = None"
      and fresh: "new_id \<notin> set (map we_id (webhookEvents db))"
      and st: "charge_event_status ety = Some st"
  shows "fst (deliver no_faults (receiver new_id) (Inr payload) db) = SuccessResponse 200 ''OK''"
    and "payments (snd (deliver no_faults (receiver new_id) (Inr payload) db)) =
           map (\<lambda>p. if where_eq (object_id payload) (p_shift4ChargeId p)
                     then p\<lparr>p_status := st\<rparr> else p) (payments db)"
proof -
  let ?ev = "\<lparr>we_id = new_id, we_eventId = eid, we_eventType = ety, we_payload = payload,
              we_processed = False, we_processingError = None, we_retryCount = 0\<rparr>"
  let ?db1 = "db\<lparr>webhookEvents := webhookEvents db @ [?ev]\<rparr>"
  let ?task = "\<lparr>t_webhookEventId = new_id, t_eventId = eid, t_eventType = ety\<rparr>"
  have post: "POST_webhook (receiver new_id) (Inr payload) db = (SuccessResponse 200 ''OK'', ?db1, Some ?task)"
    using POST_webhook_new [OF id ty receiver_simps(4) new] by simp
  have "\<forall>x \<in> set (webhookEvents db). \<not> we_id x = new_id" using fresh by auto
  then have "find (\<lambda>e. we_id e = new_id) (webhookEvents db @ [?ev]) = Some ?ev"
    by (intro find_append_fresh) auto
  then have row: "find (\<lambda>e. we_id e = t_webhookEventId ?task) (webhookEvents ?db1) = Some ?ev"
    by simp
  have ty': "charge_event_status (t_eventType ?task) = Some st" using st by simp
  from charge_event_dispatch [OF st, of payload ?db1] obtain db2 where
    d: "dispatch (pf_handler no_faults) (t_eventType ?task) (we_payload ?ev) ?db1 = Inr db2" and
    p: "payments db2 = map (\<lambda>p. if where_eq (object_id payload) (p_shift4ChargeId p)
                                     then p\<lparr>p_status := st\<rparr> else p) (payments ?db1)"
    by auto
  note r = processWebhookEvent_resolves [OF row d no_faults_simps(1) no_faults_simps(3)]
  show "fst (deliver no_faults (receiver new_id) (Inr payload) db) = SuccessResponse 200 ''OK''"
    using post by (simp add: deliver_def)
  show "payments (snd (deliver no_faults (receiver new_id) (Inr payload) db)) =
           map (\<lambda>p. if where_eq (object_id payload) (p_shift4ChargeId p)
                     then p\<lparr>p_status := st\<rparr> else p) (payments db)"
    using post r p by (simp add: deliver_def)
qed

text \<open>
  C5, as the code has it. A \<open>charge.failed\<close> notification that is delivered for the first
  time (no store call failing) is acknowledged with 200 and applied: after its processing
  run every payment with
  the notification's charge id is FAILED, the payments that were CAPTURED included, and the
  other payments are as before. The order of arrival decides: the last event processed
  determines the status.
\<close>

theorem charge_failed_overrides_captured:
  assumes id: "or_str (w_id payload) (w_eventId payload) = Some eid" "eid \<noteq> []"
      and ty: "w_type payload = Some ''charge.failed''"
      and obj: "object_id payload = Some cid"
      and new: "find (\<lambda>e. we_eventId e = eid) (webhookEvents db) = None"
      and fresh: "new_id \<notin> set (map we_id (webhookEvents db))"
  shows "fst (deliver no_faults (receiver new_id) (Inr payload) db) = SuccessResponse 200 ''OK'' \<and>
         payments (snd (deliver no_faults (receiver new_id) (Inr payload) db)) =
           map (\<lambda>p. if p_shift4ChargeId p = Some cid then p\<lparr>p_status := P_FAILED\<rparr> else p)
             (payments db) \<and>
         (\<forall>p \<in> set (payments db). p_shift4ChargeId p = Some cid \<and> p_status p = P_CAPTURED \<longrightarrow>
            p\<lparr>p_status := P_FAILED\<rparr> \<in> set (payments (snd (deliver no_faults (receiver new_id) (Inr payload) db))))"
proof -
  have st: "charge_event_status ''charge.failed'' = Some P_FAILED"
    by (simp add: charge_event_status_def)
  have ne: "''charge.failed'' \<noteq> []" by simp
  note d = deliver_new_event [OF id ty ne new fresh st]
  have pays: "payments (snd (deliver no_faults (receiver new_id) (Inr payload) db)) =
           map (\<lambda>p. if p_shift4ChargeId p = Some cid then p\<lparr>p_status := P_FAILED\<rparr> else p)
             (payments db)"
    using d(2) obj by (simp add: where_eq_def)
  have "p\<lparr>p_status := P_FAILED\<rparr> \<in> set (payments (snd (deliver no_faults (receiver new_id) (Inr payload) db)))"
    if "p \<in> set (payments db)" "p_shift4ChargeId p = Some cid" for p
    unfolding pays using that by (force simp: image_iff)
  with d(1) pays show ?thesis by blast
qed

text \<open>A \<open>charge.failed\<close> notification for the captured payment above.\<close>

theorem charge_failed_overrides_captured_witness:
  "fst (deliver no_faults (receiver ''wh_7'') (Inr (notification ''evt_7'' ''charge.failed'' ''ch_1'')) demo_db)
     = SuccessResponse 200 ''OK'' \<and>
   payment_statuses demo_db = [P_CAPTURED] \<and>
   payments (snd (deliver no_faults (receiver ''wh_7'') (Inr (notification ''evt_7'' ''charge.failed'' ''ch_1''))
                    demo_db)) = [demo_payment\<lparr>p_status := P_FAILED\<rparr>]"
proof -
  let ?n = "notification ''evt_7'' ''charge.failed'' ''ch_1''"
  have id: "or_str (w_id ?n) (w_eventId ?n) = Some ''evt_7''" "''evt_7'' \<noteq> []"
    and ty: "w_type ?n = Some ''charge.failed''"
    and obj: "object_id ?n = Some ''ch_1''"
    by (simp_all add: notification_def object_data_def or_str_def truthy_str_def object_id_def
          data_field_def)
  have new: "find (\<lambda>e. we_eventId e = ''evt_7'') (webhookEvents demo_db) = None"
    and fresh: "''wh_7'' \<notin> set (map we_id (webhookEvents demo_db))"
    by (simp_all add: demo_db_def)
  from charge_failed_overrides_captured [OF id ty obj new fresh]
  show ?thesis by (simp add: demo_db_def demo_payment_def payment_statuses_def)
qed

text \<open>
  The claim as stated fails: the payment is CAPTURED, a \<open>charge.failed\<close> notification for
  its charge arrives later, and processing it leaves the payment FAILED, not CAPTURED.
\<close>

theorem late_charge_failed_marks_captured_failed:
  "payment_statuses demo_db = [P_CAPTURED] \<and>
   payment_statuses
     (snd (deliver no_faults (receiver ''wh_1'') (Inr (notification ''evt_9'' ''charge.failed'' ''ch_1'')) demo_db))
     = [P_FAILED]"
  by (simp add: webhook_eval)

section \<open>The refund ledger under refund requests and notifications\<close>

text \<open>
  The handler as one step is its two phases on the same store. Two requests that overlap
  both pass the check: two requests of 3000 on the payment of 5000 that both read the store
  before either writes are both answered 200, and the payment then has SUCCEEDED refunds
  of 6000.
\<close>

lemma overlapping_refund_requests_overdraw:
  "\<exists>responseA responseB db'.
     overlapped (refunds_env ''re_1'' ''successful'') (refund_body (Some 3000))
       (refunds_env ''re_2'' ''successful'') (refund_body (Some 3000)) demo_db
       = Some (responseA, responseB, db') \<and>
     http_status responseA = 200 \<and> http_status responseB = 200 \<and>
     totalRefunded db' demo_payment = 6000 \<and> \<not> refund_ledger_ok db'"
  by (simp add: overlapped_def refunds_read_def refunds_write_def refund_ledger_ok_def
        refunds_env_def refund_body_def gateway_refund_def refundAmount_def
        availableToRefund_def totalRefunded_def existingRefunds_def createRefund_def
        refundRequest_def refund_payload_def truthy_num_def refundRecord_def
        successResponse_def generateIdempotencyKey_def paymentStatusAfter_def
        orderStatusAfter_def refund_create_def payment_update_status_def
        order_update_refunded_def demo_db_def demo_payment_def demo_order_def Let_def)




end
